theory Spec2Isabelle
  imports Complex_Main "HOL-Library.AList" "HOL-Library.Multiset"
begin

section \<open>Python values\<close>

text \<open>
  The class \<open>mdf_skeleton\<close> of \<open>mdfreader/mdf.py\<close> is a Python \<open>dict\<close> subclass whose
  values are channel dictionaries. Python is dynamically typed, so the values stored in a
  channel dictionary form one universe. A float is modelled by what Python's \<open>==\<close> can
  observe of it: its exact (rational) value, the negative zero, the infinities and NaN.
  No arithmetic on floats occurs in the module, only comparison with constants.
\<close>

datatype pyfloat = FFin rat | FNegZero | FInf bool | FNaN

datatype pyval =
    PNone
  | PBool bool
  | PInt int
  | PFloat pyfloat
  | PStr string
  | PList "pyval list"
  | PDict "(string \<times> pyval) list"

text \<open>
  The item held by a field of a channel dictionary: the numpy array of the samples
  (docstring of \<open>add_channel\<close>: \<open>data : numpy array\<close>), or a plain Python value.
\<close>

datatype item = Arr "pyval list" | Val pyval

text \<open>The exceptions the module can raise. \<open>KeyError\<close> carries its argument.\<close>

datatype error = KeyError item | ValueError | TypeError | IndexError

text \<open>The module-level field names.\<close>

definition descriptionField :: string where "descriptionField = ''description''"
definition unitField :: string where "unitField = ''unit''"
definition dataField :: string where "dataField = ''data''"
definition masterField :: string where "masterField = ''master''"
definition masterTypeField :: string where "masterTypeField = ''masterType''"
definition conversionField :: string where "conversionField = ''conversion''"
definition attachmentField :: string where "attachmentField = ''attachment''"

text \<open>
  The numeric value of a Python value that is a finite number (\<open>bool\<close> is a subclass of
  \<open>int\<close>), and \<open>x == c\<close> for a finite numeric constant \<open>c\<close>. A string, a list, a
  dictionary, \<open>None\<close>, an infinity and NaN are equal to no finite number.
\<close>

fun num_value :: "pyval \<Rightarrow> rat option" where
  "num_value (PBool b) = Some (if b then 1 else 0)"
| "num_value (PInt i) = Some (of_int i)"
| "num_value (PFloat (FFin q)) = Some q"
| "num_value (PFloat FNegZero) = Some 0"
| "num_value _ = None"

definition py_eq_const :: "pyval \<Rightarrow> pyval \<Rightarrow> bool" where
  "py_eq_const x c = (num_value x \<noteq> None \<and> num_value x = num_value c)"

text \<open>Python's \<open>str\<close> of an \<open>int\<close>: decimal digits, with a minus sign when negative.\<close>

definition digit_char :: "nat \<Rightarrow> char" where
  "digit_char d = ''0123456789'' ! d"

fun str_nat :: "nat \<Rightarrow> string" where
  "str_nat n = (if n < 10 then [digit_char n] else str_nat (n div 10) @ [digit_char (n mod 10)])"

declare str_nat.simps [simp del]

definition str_int :: "int \<Rightarrow> string" where
  "str_int i = (if i < 0 then CHR ''-'' # str_nat (nat (- i)) else str_nat (nat i))"

section \<open>Objects and the heap\<close>

text \<open>
  \<open>copy\<close> shares the channel dictionaries, the master channel list and the file metadata
  between two instances, and the methods mutate them in place. So objects live in a heap
  and instances hold references. There is one heap component per kind of object; a
  reference is a natural number and \<open>next_addr\<close> is the next unused one.

  A Python \<open>dict\<close> is an association list in insertion order: \<open>map_of\<close> reads a key,
  \<open>AList.update\<close> assigns one (in place, or at the end when new), \<open>AList.delete\<close>
  removes one. The keys of the master channel list are master channel names or \<open>None\<close>.
\<close>

type_synonym addr = nat

record mdf_obj =
  self_dict :: "(string \<times> addr) list"
  masterChannelList :: addr
  multiProc :: bool
  file_metadata :: addr
  MDFVersionNumber :: int
  filterChannelNames :: bool
  convert_tables :: bool
  pandasframe :: bool
  fileName :: "string option"

record heap =
  objs :: "addr \<Rightarrow> mdf_obj"
  channels :: "addr \<Rightarrow> (string \<times> item) list"
  masterlists :: "addr \<Rightarrow> (string option \<times> string list) list"
  metadatas :: "addr \<Rightarrow> (string \<times> pyval) list"
  next_addr :: addr

definition empty_obj :: mdf_obj where
  "empty_obj = \<lparr>self_dict = [], masterChannelList = 0, multiProc = False, file_metadata = 0,
     MDFVersionNumber = 0, filterChannelNames = False, convert_tables = False,
     pandasframe = False, fileName = None\<rparr>"

definition empty_heap :: heap where
  "empty_heap = \<lparr>objs = (\<lambda>_. empty_obj), channels = (\<lambda>_. []), masterlists = (\<lambda>_. []),
     metadatas = (\<lambda>_. []), next_addr = 0\<rparr>"

text \<open>
  A method either returns a value or raises, and in both cases leaves a heap behind:
  what it mutated before raising stays mutated.
\<close>

type_synonym 'a prog = "heap \<Rightarrow> (error + 'a) \<times> heap"

definition ret :: "'a \<Rightarrow> 'a prog" where
  "ret x h = (Inr x, h)"

definition bnd :: "'a prog \<Rightarrow> ('a \<Rightarrow> 'b prog) \<Rightarrow> 'b prog" where
  "bnd m f h = (case m h of (Inl e, h') \<Rightarrow> (Inl e, h') | (Inr x, h') \<Rightarrow> f x h')"

definition thn :: "unit prog \<Rightarrow> 'b prog \<Rightarrow> 'b prog" where
  "thn m k = bnd m (\<lambda>_. k)"

text \<open>The keys of an instance, and \<open>name in self\<close>.\<close>

definition keys :: "heap \<Rightarrow> addr \<Rightarrow> string list" where
  "keys h self = map fst (self_dict (objs h self))"

definition contains :: "heap \<Rightarrow> addr \<Rightarrow> string \<Rightarrow> bool" where
  "contains h self name = (map_of (self_dict (objs h self)) name \<noteq> None)"

section \<open>The query contract\<close>

text \<open>\<open>getChannel\<close> returns the channel dictionary (a reference), or \<open>None\<close>.\<close>

definition getChannel :: "heap \<Rightarrow> addr \<Rightarrow> string \<Rightarrow> addr option" where
  "getChannel h self channelName =
     (if contains h self channelName then map_of (self_dict (objs h self)) channelName
      else None)"

text \<open>
  \<open>_getChannelField\<close> of the source. When the name is a key, \<open>getChannel\<close> has
  returned the channel dictionary, so the \<open>None\<close> case of \<open>channel\<close> below is never
  taken.
\<close>

definition getChannelField :: "heap \<Rightarrow> addr \<Rightarrow> string \<Rightarrow> string \<Rightarrow> item" where
  "getChannelField h self channelName field =
     (let channel = getChannel h self channelName in
      if contains h self channelName then
        (case channel of
           None \<Rightarrow> Val PNone
         | Some r \<Rightarrow>
             (case map_of (channels h r) field of
                Some v \<Rightarrow> v
              | None \<Rightarrow> Val (PStr [])))
      else Val PNone)"

definition getChannelUnit :: "heap \<Rightarrow> addr \<Rightarrow> string \<Rightarrow> item" where
  "getChannelUnit h self channelName = getChannelField h self channelName unitField"

definition getChannelDesc :: "heap \<Rightarrow> addr \<Rightarrow> string \<Rightarrow> item" where
  "getChannelDesc h self channelName = getChannelField h self channelName descriptionField"

definition getChannelMaster :: "heap \<Rightarrow> addr \<Rightarrow> string \<Rightarrow> item" where
  "getChannelMaster h self channelName = getChannelField h self channelName masterField"

definition getChannelMasterType :: "heap \<Rightarrow> addr \<Rightarrow> string \<Rightarrow> item" where
  "getChannelMasterType h self channelName = getChannelField h self channelName masterTypeField"

definition getChannelConversion :: "heap \<Rightarrow> addr \<Rightarrow> string \<Rightarrow> item" where
  "getChannelConversion h self channelName = getChannelField h self channelName conversionField"

section \<open>The field-scoped setters\<close>

text \<open>
  \<open>_setChannel\<close> of the source: \<open>self[channelName][field] = item\<close>, or
  \<open>KeyError('Channel not in dictionary')\<close>. The lookup after the membership test
  cannot miss.
\<close>

definition setChannel :: "addr \<Rightarrow> string \<Rightarrow> item \<Rightarrow> string \<Rightarrow> unit prog" where
  "setChannel self channelName it field h =
     (if contains h self channelName then
        (case map_of (self_dict (objs h self)) channelName of
           None \<Rightarrow> (Inl (KeyError (Val (PStr channelName))), h)
         | Some r \<Rightarrow>
             (Inr (), h\<lparr>channels := (channels h)(r := AList.update field it (channels h r))\<rparr>))
      else (Inl (KeyError (Val (PStr ''Channel not in dictionary''))), h))"

definition setChannelUnit :: "addr \<Rightarrow> string \<Rightarrow> item \<Rightarrow> unit prog" where
  "setChannelUnit self channelName unit = setChannel self channelName unit unitField"

definition setChannelData :: "addr \<Rightarrow> string \<Rightarrow> item \<Rightarrow> unit prog" where
  "setChannelData self channelName data = setChannel self channelName data dataField"

definition setChannelDesc :: "addr \<Rightarrow> string \<Rightarrow> item \<Rightarrow> unit prog" where
  "setChannelDesc self channelName desc = setChannel self channelName desc descriptionField"

definition setChannelMaster :: "addr \<Rightarrow> string \<Rightarrow> item \<Rightarrow> unit prog" where
  "setChannelMaster self channelName master = setChannel self channelName master masterField"

definition setChannelMasterType :: "addr \<Rightarrow> string \<Rightarrow> item \<Rightarrow> unit prog" where
  "setChannelMasterType self channelName masterType =
     setChannel self channelName masterType masterTypeField"

definition setChannelConversion :: "addr \<Rightarrow> string \<Rightarrow> item \<Rightarrow> unit prog" where
  "setChannelConversion self channelName conversion =
     setChannel self channelName conversion conversionField"

definition setChannelAttachment :: "addr \<Rightarrow> string \<Rightarrow> item \<Rightarrow> unit prog" where
  "setChannelAttachment self channelName attachment =
     setChannel self channelName attachment attachmentField"

section \<open>Subscripts on values\<close>

text \<open>
  \<open>d[k]\<close> and \<open>d[k] = v\<close> for a string key \<open>k\<close>. Only a dictionary supports them;
  a numpy array raises \<open>IndexError\<close> for a string index and any other value raises
  \<open>TypeError\<close>.
\<close>

definition dict_get :: "(string \<times> 'v) list \<Rightarrow> string \<Rightarrow> error + 'v" where
  "dict_get d k = (case map_of d k of None \<Rightarrow> Inl (KeyError (Val (PStr k))) | Some v \<Rightarrow> Inr v)"

fun py_getitem :: "pyval \<Rightarrow> string \<Rightarrow> error + pyval" where
  "py_getitem (PDict d) k = dict_get d k"
| "py_getitem _ k = Inl TypeError"

fun py_setitem :: "pyval \<Rightarrow> string \<Rightarrow> pyval \<Rightarrow> error + pyval" where
  "py_setitem (PDict d) k v = Inr (PDict (AList.update k v d))"
| "py_setitem _ k v = Inl TypeError"

fun item_getitem :: "item \<Rightarrow> string \<Rightarrow> error + pyval" where
  "item_getitem (Val x) k = py_getitem x k"
| "item_getitem (Arr _) k = Inl IndexError"

fun item_setitem :: "item \<Rightarrow> string \<Rightarrow> pyval \<Rightarrow> error + item" where
  "item_setitem (Val x) k v = (case py_setitem x k v of Inl e \<Rightarrow> Inl e | Inr y \<Rightarrow> Inr (Val y))"
| "item_setitem (Arr _) k v = Inl IndexError"

definition lift :: "error + 'a \<Rightarrow> 'a prog" where
  "lift r h = (r, h)"

section \<open>Chained subscripts on an instance\<close>

text \<open>\<open>self[channel_name]\<close>, read as a plain dictionary lookup.\<close>

definition channel_of :: "addr \<Rightarrow> string \<Rightarrow> addr prog" where
  "channel_of self channel_name h = lift (dict_get (self_dict (objs h self)) channel_name) h"

text \<open>\<open>self[channel_name] = {}\<close>: a new, empty channel dictionary.\<close>

definition new_channel :: "addr \<Rightarrow> string \<Rightarrow> unit prog" where
  "new_channel self channel_name h =
     (let r = next_addr h; ob = objs h self in
      (Inr (), h\<lparr>objs := (objs h)(self := ob\<lparr>self_dict := AList.update channel_name r (self_dict ob)\<rparr>),
                 channels := (channels h)(r := []),
                 next_addr := r + 1\<rparr>))"

text \<open>\<open>self[channel_name][field] = it\<close>.\<close>

definition channel_assign :: "addr \<Rightarrow> string \<Rightarrow> string \<Rightarrow> item \<Rightarrow> unit prog" where
  "channel_assign self channel_name field it =
     bnd (channel_of self channel_name) (\<lambda>r h.
       (Inr (), h\<lparr>channels := (channels h)(r := AList.update field it (channels h r))\<rparr>))"

text \<open>\<open>self[channel_name][field]\<close>.\<close>

definition channel_read :: "addr \<Rightarrow> string \<Rightarrow> string \<Rightarrow> item prog" where
  "channel_read self channel_name field =
     bnd (channel_of self channel_name) (\<lambda>r h. lift (dict_get (channels h r) field) h)"

text \<open>\<open>self[channel_name].pop(field)\<close>.\<close>

definition channel_pop :: "addr \<Rightarrow> string \<Rightarrow> string \<Rightarrow> item prog" where
  "channel_pop self channel_name field =
     bnd (channel_of self channel_name) (\<lambda>r h.
       (case map_of (channels h r) field of
          None \<Rightarrow> (Inl (KeyError (Val (PStr field))), h)
        | Some v \<Rightarrow> (Inr v, h\<lparr>channels := (channels h)(r := AList.delete field (channels h r))\<rparr>)))"

text \<open>\<open>self[channel_name]['conversion'][k] = v\<close>.\<close>

definition conv_assign :: "addr \<Rightarrow> string \<Rightarrow> string \<Rightarrow> pyval \<Rightarrow> unit prog" where
  "conv_assign self channel_name k v =
     bnd (channel_read self channel_name ''conversion'') (\<lambda>c.
     bnd (lift (item_setitem c k v)) (\<lambda>c'.
     channel_assign self channel_name ''conversion'' c'))"

text \<open>\<open>self[channel_name]['conversion']['parameters'][k] = v\<close>.\<close>

definition param_assign :: "addr \<Rightarrow> string \<Rightarrow> string \<Rightarrow> pyval \<Rightarrow> unit prog" where
  "param_assign self channel_name k v =
     bnd (channel_read self channel_name ''conversion'') (\<lambda>c.
     bnd (lift (item_getitem c ''parameters'')) (\<lambda>p.
     bnd (lift (py_setitem p k v)) (\<lambda>p'.
     bnd (lift (item_setitem c ''parameters'' p')) (\<lambda>c'.
     channel_assign self channel_name ''conversion'' c'))))"

text \<open>\<open>self[channel_name]['conversion']['parameters'][k]\<close>.\<close>

definition param_read :: "addr \<Rightarrow> string \<Rightarrow> string \<Rightarrow> pyval prog" where
  "param_read self channel_name k =
     bnd (channel_read self channel_name ''conversion'') (\<lambda>c.
     bnd (lift (item_getitem c ''parameters'')) (\<lambda>p.
     lift (py_getitem p k)))"

section \<open>The mutation contract\<close>

text \<open>A master channel name as the item stored in the \<open>master\<close> field.\<close>

fun master_item :: "string option \<Rightarrow> item" where
  "master_item None = Val PNone"
| "master_item (Some m) = Val (PStr m)"

text \<open>
  Lines 138 to 140 of \<open>add_channel\<close>: the entry of the master channel is created when
  missing, and the channel name is appended to its list.
\<close>

definition register_master :: "addr \<Rightarrow> string option \<Rightarrow> string \<Rightarrow> unit prog" where
  "register_master self master_channel channel_name h =
     (let a = masterChannelList (objs h self);
          ml = masterlists h a;
          ml1 = (if master_channel \<notin> set (map fst ml) then AList.update master_channel [] ml else ml)
      in case map_of ml1 master_channel of
           None \<Rightarrow> (Inl (KeyError (master_item master_channel)),
                    h\<lparr>masterlists := (masterlists h)(a := ml1)\<rparr>)
         | Some l \<Rightarrow>
             (Inr (), h\<lparr>masterlists :=
                (masterlists h)(a := AList.update master_channel (l @ [channel_name]) ml1)\<rparr>))"

text \<open>The body of \<open>if conversion is not None\<close> in \<open>add_channel\<close>.\<close>

definition attach_conversion :: "addr \<Rightarrow> string \<Rightarrow> (string \<times> pyval) list \<Rightarrow> unit prog" where
  "attach_conversion self channel_name conversion =
     thn (channel_assign self channel_name ''conversion'' (Val (PDict [])))
    (bnd (lift (dict_get conversion ''cc_type'')) (\<lambda>t.
     thn (conv_assign self channel_name ''type'' t)
    (thn (conv_assign self channel_name ''parameters'' (PDict []))
    (\<lambda>h.
      if MDFVersionNumber (objs h self) < 400 then
        (thn (if ''conversion'' \<in> set (map fst conversion) then
                bnd (lift (dict_get conversion ''conversion'')) (\<lambda>c.
                conv_assign self channel_name ''parameters'' c)
              else ret ())
        (bnd (lift (dict_get conversion ''cc_type'')) (\<lambda>t0.
           if py_eq_const t0 (PInt 0) then
             bnd (param_read self channel_name ''P2'') (\<lambda>p2.
               if py_eq_const p2 (PFloat (FFin 1)) then
                 bnd (param_read self channel_name ''P1'') (\<lambda>p1.
                   if py_eq_const p1 (PFloat (FFin 0)) \<or> py_eq_const p1 (PFloat FNegZero) then
                     bnd (channel_pop self channel_name ''conversion'') (\<lambda>_. ret ())
                   else ret ())
               else ret ())
           else ret ()))) h
      else
        (thn (if ''cc_val'' \<in> set (map fst conversion) then
                bnd (lift (dict_get conversion ''cc_val'')) (\<lambda>v.
                param_assign self channel_name ''cc_val'' v)
              else ret ())
             (if ''cc_ref'' \<in> set (map fst conversion) then
                bnd (lift (dict_get conversion ''cc_ref'')) (\<lambda>v.
                param_assign self channel_name ''cc_ref'' v)
              else ret ())) h))))"

text \<open>
  \<open>add_channel(dataGroup, channel_name, data, master_channel, master_type, unit,
  description, conversion)\<close>. The name bound by \<open>let\<close> is the source's \<open>channel_name\<close>
  after line 132.
\<close>

definition add_channel ::
  "addr \<Rightarrow> int \<Rightarrow> string \<Rightarrow> item \<Rightarrow> string option \<Rightarrow> item \<Rightarrow> item \<Rightarrow> item \<Rightarrow>
   (string \<times> pyval) list option \<Rightarrow> unit prog" where
  "add_channel self dataGroup channel_name0 data master_channel master_type unit description
     conversion h =
     (let channel_name =
        (if contains h self channel_name0 then channel_name0 @ ''_'' @ str_int dataGroup
         else channel_name0)
      in
       (thn (new_channel self channel_name)
       (thn (setChannelData self channel_name data)
       (thn (setChannelUnit self channel_name unit)
       (thn (setChannelDesc self channel_name description)
       (thn (setChannelMaster self channel_name (master_item master_channel))
       (thn (register_master self master_channel channel_name)
       (thn (\<lambda>h1. if MDFVersionNumber (objs h1 self) < 400
                  then setChannelMasterType self channel_name (Val (PInt 1)) h1
                  else setChannelMasterType self channel_name master_type h1)
            (case conversion of
               None \<Rightarrow> ret ()
             | Some c \<Rightarrow> attach_conversion self channel_name c)))))))) h)"

text \<open>
  \<open>self.masterChannelList[k]\<close> where \<open>k\<close> is what \<open>getChannelMaster\<close> returned. The
  keys of the master channel list are strings or \<open>None\<close>, so any other hashable key is
  missing; a list, a dictionary and an array are unhashable.
\<close>

fun index_get ::
  "(string option \<times> string list) list \<Rightarrow> item \<Rightarrow> error + (string option \<times> string list)" where
  "index_get ml (Val PNone) =
     (case map_of ml None of None \<Rightarrow> Inl (KeyError (Val PNone)) | Some l \<Rightarrow> Inr (None, l))"
| "index_get ml (Val (PStr m)) =
     (case map_of ml (Some m) of None \<Rightarrow> Inl (KeyError (Val (PStr m))) | Some l \<Rightarrow> Inr (Some m, l))"
| "index_get ml (Val (PList xs)) = Inl TypeError"
| "index_get ml (Val (PDict d)) = Inl TypeError"
| "index_get ml (Arr xs) = Inl TypeError"
| "index_get ml k = Inl (KeyError k)"

text \<open>\<open>self.pop(channel_name)\<close>.\<close>

definition self_pop :: "addr \<Rightarrow> string \<Rightarrow> addr prog" where
  "self_pop self channel_name h =
     (let ob = objs h self in
      case map_of (self_dict ob) channel_name of
        None \<Rightarrow> (Inl (KeyError (Val (PStr channel_name))), h)
      | Some r \<Rightarrow>
          (Inr r, h\<lparr>objs := (objs h)(self :=
                      ob\<lparr>self_dict := AList.delete channel_name (self_dict ob)\<rparr>)\<rparr>))"

text \<open>
  \<open>remove_channel\<close>: \<open>list.remove\<close> deletes the first occurrence and raises
  \<open>ValueError\<close> when there is none. The result is the removed channel dictionary.
\<close>

definition remove_channel :: "addr \<Rightarrow> string \<Rightarrow> addr prog" where
  "remove_channel self channel_name h =
     (let a = masterChannelList (objs h self) in
      case index_get (masterlists h a) (getChannelMaster h self channel_name) of
        Inl e \<Rightarrow> (Inl e, h)
      | Inr (k, l) \<Rightarrow>
          if channel_name \<in> set l then
            self_pop self channel_name
              (h\<lparr>masterlists :=
                   (masterlists h)(a := AList.update k (remove1 channel_name l) (masterlists h a))\<rparr>)
          else (Inl ValueError, h))"

text \<open>
  \<open>_remove_channel_field\<close> of the source. \<open>field in None\<close> raises \<open>TypeError\<close>; a
  function that falls off its end returns \<open>None\<close>.
\<close>

definition remove_channel_field :: "addr \<Rightarrow> string \<Rightarrow> string \<Rightarrow> item prog" where
  "remove_channel_field self channelName field h =
     (case getChannel h self channelName of
        None \<Rightarrow> (Inl TypeError, h)
      | Some r \<Rightarrow>
          if field \<in> set (map fst (channels h r)) then channel_pop self channelName field h
          else (Inr (Val PNone), h))"

definition remove_channel_conversion :: "addr \<Rightarrow> string \<Rightarrow> item prog" where
  "remove_channel_conversion self channelName =
     remove_channel_field self channelName conversionField"

section \<open>File metadata, construction and copy\<close>

text \<open>\<open>self.file_metadata[k] = v\<close>.\<close>

definition meta_assign :: "addr \<Rightarrow> string \<Rightarrow> pyval \<Rightarrow> heap \<Rightarrow> heap" where
  "meta_assign self k v h =
     (let a = file_metadata (objs h self) in
      h\<lparr>metadatas := (metadatas h)(a := AList.update k v (metadatas h a))\<rparr>)"

text \<open>An omitted keyword argument (\<open>None\<close> here) takes the default, the empty string.\<close>

fun dflt :: "pyval option \<Rightarrow> pyval" where
  "dflt None = PStr []"
| "dflt (Some v) = v"

definition add_metadata ::
  "addr \<Rightarrow> pyval option \<Rightarrow> pyval option \<Rightarrow> pyval option \<Rightarrow> pyval option \<Rightarrow> pyval option \<Rightarrow>
   pyval option \<Rightarrow> pyval option \<Rightarrow> unit prog" where
  "add_metadata self author organisation project subject comment date time h =
     (Inr (),
      meta_assign self ''time'' (dflt time)
     (meta_assign self ''date'' (dflt date)
     (meta_assign self ''comment'' (dflt comment)
     (meta_assign self ''subject'' (dflt subject)
     (meta_assign self ''project'' (dflt project)
     (meta_assign self ''organisation'' (dflt organisation)
     (meta_assign self ''author'' (dflt author) h)))))))"

text \<open>
  The constructor called without a file name (\<open>fileName=None\<close>, so nothing is read):
  a new instance with a new master channel list and new file metadata.
\<close>

definition mdf_skeleton_init :: "bool \<Rightarrow> heap \<Rightarrow> addr \<times> heap" where
  "mdf_skeleton_init filterChannelNames0 h =
     (let self = next_addr h; ml = self + 1; md = self + 2 in
      (self,
       h\<lparr>objs := (objs h)(self :=
            \<lparr>self_dict = [], masterChannelList = ml, multiProc = False, file_metadata = md,
             MDFVersionNumber = 300, filterChannelNames = filterChannelNames0,
             convert_tables = False, pandasframe = False, fileName = None\<rparr>),
         masterlists := (masterlists h)(ml := []),
         metadatas := (metadatas h)(md :=
            [(''author'', PStr []), (''organisation'', PStr []), (''project'', PStr []),
             (''subject'', PStr []), (''comment'', PStr []), (''time'', PStr []),
             (''date'', PStr [])]),
         next_addr := self + 3\<rparr>))"

text \<open>The loop of \<open>copy\<close>: \<open>for channel in list(self.keys()): yop[channel] = self[channel]\<close>.\<close>

fun copy_channels ::
  "(string \<times> addr) list \<Rightarrow> string list \<Rightarrow> (string \<times> addr) list \<Rightarrow> error + (string \<times> addr) list" where
  "copy_channels src [] dst = Inr dst"
| "copy_channels src (channel # rest) dst =
     (case dict_get src channel of
        Inl e \<Rightarrow> Inl e
      | Inr r \<Rightarrow> copy_channels src rest (AList.update channel r dst))"

definition copy :: "addr \<Rightarrow> addr prog" where
  "copy self h =
     (let (yop, h1) = mdf_skeleton_init False h;
          src = objs h1 self;
          y = (objs h1 yop)\<lparr>multiProc := multiProc src, fileName := fileName src,
                masterChannelList := masterChannelList src, file_metadata := file_metadata src,
                MDFVersionNumber := MDFVersionNumber src,
                filterChannelNames := filterChannelNames src,
                convert_tables := convert_tables src\<rparr>;
          h2 = h1\<lparr>objs := (objs h1)(yop := y)\<rparr>
      in case copy_channels (self_dict src) (map fst (self_dict src)) (self_dict y) of
           Inl e \<Rightarrow> (Inl e, h2)
         | Inr d \<Rightarrow> (Inr yop, h2\<lparr>objs := (objs h2)(yop := y\<lparr>self_dict := d\<rparr>)\<rparr>))"

section \<open>Sequences of calls\<close>

text \<open>
  A call of \<open>add_channel\<close> with its eight arguments, and a sequence of such calls on one
  instance. A call that raises leaves its heap behind and the next call starts from it.
\<close>

datatype add_call =
  AddChannel int string item "string option" item item item "(string \<times> pyval) list option"

fun do_add :: "addr \<Rightarrow> add_call \<Rightarrow> heap \<Rightarrow> heap" where
  "do_add self (AddChannel g name data master mt unit desc conv) h =
     snd (add_channel self g name data master mt unit desc conv h)"

definition run_adds :: "addr \<Rightarrow> add_call list \<Rightarrow> heap \<Rightarrow> heap" where
  "run_adds self calls h = fold (do_add self) calls h"

section \<open>Example stores and conversions\<close>

text \<open>
  A new instance in the empty heap (it is object \<open>0\<close>; its master channel list is
  object \<open>1\<close> and its file metadata object \<open>2\<close>), and the call
  \<open>add_channel(g, 'T', array([1, 2]), 'Time', master_type=2, unit='s', description='d')\<close>
  on it.
\<close>

definition fresh :: heap where
  "fresh = snd (mdf_skeleton_init False empty_heap)"

definition add_T :: "int \<Rightarrow> heap \<Rightarrow> heap" where
  "add_T g h = snd (add_channel 0 g ''T'' (Arr [PInt 1, PInt 2]) (Some ''Time'') (Val (PInt 2))
     (Val (PStr ''s'')) (Val (PStr ''d'')) None h)"

text \<open>
  Explicit heaps holding one instance (object \<open>0\<close>) of a given version, used to
  evaluate the methods on concrete inputs; \<open>rec_T\<close> is the channel dictionary that
  \<open>add_T\<close> creates in a store of version 300.
\<close>

definition store_obj :: "(string \<times> addr) list \<Rightarrow> int \<Rightarrow> mdf_obj" where
  "store_obj d v = \<lparr>self_dict = d, masterChannelList = 1, multiProc = False, file_metadata = 2,
     MDFVersionNumber = v, filterChannelNames = False, convert_tables = False,
     pandasframe = False, fileName = None\<rparr>"

definition empty_meta :: "(string \<times> pyval) list" where
  "empty_meta = [(''author'', PStr []), (''organisation'', PStr []), (''project'', PStr []),
     (''subject'', PStr []), (''comment'', PStr []), (''time'', PStr []), (''date'', PStr [])]"

definition mk_heap ::
  "(string \<times> addr) list \<Rightarrow> int \<Rightarrow> (addr \<Rightarrow> (string \<times> item) list) \<Rightarrow>
   (string option \<times> string list) list \<Rightarrow> addr \<Rightarrow> heap" where
  "mk_heap d v ch ml n = \<lparr>objs = (\<lambda>_. empty_obj)(0 := store_obj d v), channels = ch,
     masterlists = (\<lambda>_. [])(1 := ml), metadatas = (\<lambda>_. [])(2 := empty_meta), next_addr = n\<rparr>"

definition rec_T :: "(string \<times> item) list" where
  "rec_T = [(''data'', Arr [PInt 1, PInt 2]), (''unit'', Val (PStr ''s'')),
     (''description'', Val (PStr ''d'')), (''master'', Val (PStr ''Time'')),
     (''masterType'', Val (PInt 1))]"

text \<open>A store whose channel \<open>T\<close> has lost its unit and its description.\<close>

definition no_text_fields :: heap where
  "no_text_fields =
     snd (remove_channel_field 0 ''T'' descriptionField
       (snd (remove_channel_field 0 ''T'' unitField (add_T 0 fresh))))"

text \<open>
  The conversion \<open>{'cc_type': 0, 'conversion': {'P1': z, 'P2': 1.0}}\<close>, and a linear
  conversion of slope \<open>2.0\<close> that carries no \<open>P1\<close>.
\<close>

definition identity_conv :: "pyfloat \<Rightarrow> (string \<times> pyval) list" where
  "identity_conv z = [(''cc_type'', PInt 0),
     (''conversion'', PDict [(''P1'', PFloat z), (''P2'', PFloat (FFin 1))])]"

definition slope2_conv :: "(string \<times> pyval) list" where
  "slope2_conv = [(''cc_type'', PInt 0), (''conversion'', PDict [(''P2'', PFloat (FFin 2))])]"

text \<open>The store with channel \<open>T\<close>, switched to the tabular rendering.\<close>

definition tabular_store :: heap where
  "tabular_store = (add_T 0 fresh)\<lparr>objs := (objs (add_T 0 fresh))(0 :=
      (objs (add_T 0 fresh) 0)\<lparr>pandasframe := True\<rparr>)\<rparr>"

text \<open>The store with channel \<open>T\<close> after \<open>setChannelMaster('T', 'Angle')\<close>.\<close>

definition retargeted :: heap where
  "retargeted = snd (setChannelMaster 0 ''T'' (Val (PStr ''Angle'')) (add_T 0 fresh))"

text \<open>
  Three calls for the name \<open>T\<close>, from data groups 0, 1 and 1, on a new store.
\<close>

definition collided :: heap where
  "collided = add_T 1 (add_T 1 (add_T 0 fresh))"

section \<open>Derived notions\<close>

text \<open>
  The key under which \<open>add_channel\<close> registers a channel (lines 131 and 132), and the
  heap after lines 133 to 144, before the conversion is looked at: a new channel
  dictionary with its five fields, the key in the instance and in the list of its master.
\<close>

definition channel_key :: "heap \<Rightarrow> addr \<Rightarrow> int \<Rightarrow> string \<Rightarrow> string" where
  "channel_key h self dataGroup channel_name =
     (if contains h self channel_name then channel_name @ ''_'' @ str_int dataGroup
      else channel_name)"

definition registered ::
  "addr \<Rightarrow> string \<Rightarrow> item \<Rightarrow> string option \<Rightarrow> item \<Rightarrow> item \<Rightarrow> item \<Rightarrow> heap \<Rightarrow> heap" where
  "registered self key data master mt unit desc h =
     (let r = next_addr h; ob = objs h self; a = masterChannelList ob; ml = masterlists h a in
      h\<lparr>objs := (objs h)(self := ob\<lparr>self_dict := AList.update key r (self_dict ob)\<rparr>),
        channels := (channels h)(r :=
          [(''data'', data), (''unit'', unit), (''description'', desc),
           (''master'', master_item master),
           (''masterType'', if MDFVersionNumber ob < 400 then Val (PInt 1) else mt)]),
        masterlists := (masterlists h)(a :=
          AList.update master ((case map_of ml master of None \<Rightarrow> [] | Some l \<Rightarrow> l) @ [key]) ml),
        next_addr := r + 1\<rparr>)"

text \<open>
  What the conversion block of \<open>add_channel\<close> may change: only the \<open>conversion\<close>
  field of the channel dictionary registered under the key.
\<close>

definition conv_frame :: "addr \<Rightarrow> string \<Rightarrow> heap \<Rightarrow> heap \<Rightarrow> bool" where
  "conv_frame self key h h' =
     (objs h' = objs h \<and> masterlists h' = masterlists h \<and> metadatas h' = metadatas h \<and>
      next_addr h' = next_addr h \<and>
      (\<forall>r f. f \<noteq> ''conversion'' \<longrightarrow> map_of (channels h' r) f = map_of (channels h r) f) \<and>
      (\<forall>r. map_of (self_dict (objs h self)) key \<noteq> Some r \<longrightarrow> channels h' r = channels h r))"

definition frames :: "addr \<Rightarrow> string \<Rightarrow> 'a prog \<Rightarrow> bool" where
  "frames self key m = (\<forall>h res h'. m h = (res, h') \<longrightarrow> conv_frame self key h h')"

text \<open>
  The keys of an instance are distinct and its channel dictionaries are allocated.
\<close>

definition store_ok :: "heap \<Rightarrow> addr \<Rightarrow> bool" where
  "store_ok h self =
     (distinct (keys h self) \<and> (\<forall>r \<in> snd ` set (self_dict (objs h self)). r < next_addr h))"

text \<open>All names in the lists of the master channel list of an instance, in order.\<close>

definition index_members :: "heap \<Rightarrow> addr \<Rightarrow> string list" where
  "index_members h self = concat (map snd (masterlists h (masterChannelList (objs h self))))"

text \<open>
  A call of the mutation contract: \<open>add_channel\<close>, \<open>remove_channel\<close>, or a field-scoped
  setter (each of the seven is \<open>_setChannel\<close> with its field). A sequence of calls avoids
  overwriting when no \<open>add_channel\<close> in it is given a name whose final key is taken.
\<close>

datatype store_call = Adding add_call | Removing string | Setting string item string

fun do_call :: "addr \<Rightarrow> store_call \<Rightarrow> heap \<Rightarrow> heap" where
  "do_call self (Adding c) h = do_add self c h"
| "do_call self (Removing name) h = snd (remove_channel self name h)"
| "do_call self (Setting name it field) h = snd (setChannel self name it field h)"

fun key_free :: "addr \<Rightarrow> store_call \<Rightarrow> heap \<Rightarrow> bool" where
  "key_free self (Adding (AddChannel g name data master mt unit desc conv)) h =
     (\<not> contains h self (channel_key h self g name))"
| "key_free self (Removing name) h = True"
| "key_free self (Setting name it field) h = True"

fun no_overwrite :: "addr \<Rightarrow> store_call list \<Rightarrow> heap \<Rightarrow> bool" where
  "no_overwrite self [] h = True"
| "no_overwrite self (c # cs) h = (key_free self c h \<and> no_overwrite self cs (do_call self c h))"

text \<open>
  The master channel list of an instance is consistent with its keys: both have distinct
  keys, and the names in the lists are the keys of the instance, each once.
\<close>

definition index_ok :: "heap \<Rightarrow> addr \<Rightarrow> bool" where
  "index_ok h self =
     (distinct (keys h self) \<and>
      distinct (map fst (masterlists h (masterChannelList (objs h self)))) \<and>
      mset (index_members h self) = mset (keys h self))"

section \<open>Basic facts\<close>

lemmas field_defs = descriptionField_def unitField_def dataField_def masterField_def
  masterTypeField_def conversionField_def attachmentField_def

lemmas getter_defs = getChannelUnit_def getChannelDesc_def getChannelMaster_def
  getChannelMasterType_def getChannelConversion_def

lemmas setter_defs = setChannelUnit_def setChannelData_def setChannelDesc_def
  setChannelMaster_def setChannelMasterType_def setChannelConversion_def
  setChannelAttachment_def

lemma setChannel_present:
  "map_of (self_dict (objs h self)) name = Some r \<Longrightarrow>
   setChannel self name it f h =
     (Inr (), h\<lparr>channels := (channels h)(r := AList.update f it (channels h r))\<rparr>)"
  by (simp add: setChannel_def contains_def)

lemma setChannel_absent:
  "\<not> contains h self name \<Longrightarrow>
   setChannel self name it f h = (Inl (KeyError (Val (PStr ''Channel not in dictionary''))), h)"
  by (simp add: setChannel_def)

lemma register_master_eq:
  "register_master self master key h =
     (Inr (), h\<lparr>masterlists := (masterlists h)(masterChannelList (objs h self) :=
        AList.update master
          ((case map_of (masterlists h (masterChannelList (objs h self))) master of
              None \<Rightarrow> [] | Some l \<Rightarrow> l) @ [key])
          (masterlists h (masterChannelList (objs h self))))\<rparr>)"
proof (cases "map_of (masterlists h (masterChannelList (objs h self))) master")
  case None
  then have "master \<notin> set (map fst (masterlists h (masterChannelList (objs h self))))"
    by (simp add: map_of_eq_None_iff)
  with None show ?thesis
    by (simp add: register_master_def Let_def update_conv')
next
  case (Some l)
  then have "master \<in> set (map fst (masterlists h (masterChannelList (objs h self))))"
    by (metis map_of_eq_None_iff option.distinct(1) set_map)
  with Some show ?thesis
    by (simp add: register_master_def Let_def)
qed

lemma add_channel_unfold:
  "add_channel self g name data master mt unit desc conv h =
     (case conv of
        None \<Rightarrow> (Inr (), registered self (channel_key h self g name) data master mt unit desc h)
      | Some c \<Rightarrow>
          attach_conversion self (channel_key h self g name) c
            (registered self (channel_key h self g name) data master mt unit desc h))"
proof -
  define key where "key = (if contains h self name then name @ ''_'' @ str_int g else name)"
  define r where "r = next_addr h"
  define ob where "ob = objs h self"
  define h1 where "h1 = h\<lparr>objs := (objs h)(self := ob\<lparr>self_dict := AList.update key r (self_dict ob)\<rparr>),
                 channels := (channels h)(r := []), next_addr := r + 1\<rparr>"
  have n: "new_channel self key h = (Inr (), h1)"
    by (simp add: new_channel_def h1_def r_def ob_def Let_def)
  have l1: "map_of (self_dict (objs h1 self)) key = Some r"
    by (simp add: h1_def update_conv')
  define h2 where "h2 = h1\<lparr>channels := (channels h1)(r := [(''data'', data)])\<rparr>"
  have s2: "setChannelData self key data h1 = (Inr (), h2)"
    using setChannel_present[OF l1] by (simp add: setChannelData_def h2_def h1_def dataField_def)
  have l2: "map_of (self_dict (objs h2 self)) key = Some r"
    using l1 by (simp add: h2_def)
  define h3 where "h3 = h2\<lparr>channels := (channels h2)(r := [(''data'', data), (''unit'', unit)])\<rparr>"
  have s3: "setChannelUnit self key unit h2 = (Inr (), h3)"
    using setChannel_present[OF l2] by (simp add: setChannelUnit_def h3_def h2_def field_defs)
  have l3: "map_of (self_dict (objs h3 self)) key = Some r"
    using l2 by (simp add: h3_def)
  define h4 where "h4 = h3\<lparr>channels := (channels h3)(r :=
    [(''data'', data), (''unit'', unit), (''description'', desc)])\<rparr>"
  have s4: "setChannelDesc self key desc h3 = (Inr (), h4)"
    using setChannel_present[OF l3] by (simp add: setChannelDesc_def h4_def h3_def field_defs)
  have l4: "map_of (self_dict (objs h4 self)) key = Some r"
    using l3 by (simp add: h4_def)
  define h5 where "h5 = h4\<lparr>channels := (channels h4)(r :=
    [(''data'', data), (''unit'', unit), (''description'', desc), (''master'', master_item master)])\<rparr>"
  have s5: "setChannelMaster self key (master_item master) h4 = (Inr (), h5)"
    using setChannel_present[OF l4] by (simp add: setChannelMaster_def h5_def h4_def field_defs)
  define h6 where "h6 = h5\<lparr>masterlists := (masterlists h5)(masterChannelList (objs h5 self) :=
        AList.update master
          ((case map_of (masterlists h5 (masterChannelList (objs h5 self))) master of
              None \<Rightarrow> [] | Some l \<Rightarrow> l) @ [key])
          (masterlists h5 (masterChannelList (objs h5 self))))\<rparr>"
  have s6: "register_master self master key h5 = (Inr (), h6)"
    by (simp add: register_master_eq h6_def)
  have l6: "map_of (self_dict (objs h6 self)) key = Some r"
    using l4 by (simp add: h6_def h5_def)
  have v6: "MDFVersionNumber (objs h6 self) = MDFVersionNumber ob"
    by (simp add: h6_def h5_def h4_def h3_def h2_def h1_def)
  define h7 where "h7 = h6\<lparr>channels := (channels h6)(r :=
    [(''data'', data), (''unit'', unit), (''description'', desc), (''master'', master_item master),
     (''masterType'', if MDFVersionNumber ob < 400 then Val (PInt 1) else mt)])\<rparr>"
  have s7: "(\<lambda>h1. if MDFVersionNumber (objs h1 self) < 400
                  then setChannelMasterType self key (Val (PInt 1)) h1
                  else setChannelMasterType self key mt h1) h6 = (Inr (), h7)"
    using setChannel_present[OF l6] v6
    by (simp add: setChannelMasterType_def h7_def h6_def h5_def field_defs)
  have h7_eq: "h7 = h\<lparr>objs := (objs h)(self := ob\<lparr>self_dict := AList.update key r (self_dict ob)\<rparr>),
                 channels := (channels h)(r :=
                   [(''data'', data), (''unit'', unit), (''description'', desc),
                    (''master'', master_item master),
                    (''masterType'', if MDFVersionNumber ob < 400 then Val (PInt 1) else mt)]),
                 masterlists := (masterlists h)(masterChannelList ob :=
                   AList.update master ((case map_of (masterlists h (masterChannelList ob)) master of None \<Rightarrow> [] | Some l \<Rightarrow> l) @ [key]) (masterlists h (masterChannelList ob))),
                 next_addr := r + 1\<rparr>"
    by (simp add: h7_def h6_def h5_def h4_def h3_def h2_def h1_def)
  have e1: "thn (new_channel self key) K h = K h1" for K :: "unit prog"
    using n by (simp add: thn_def bnd_def)
  have e2: "thn (setChannelData self key data) K h1 = K h2" for K :: "unit prog"
    using s2 by (simp add: thn_def bnd_def)
  have e3: "thn (setChannelUnit self key unit) K h2 = K h3" for K :: "unit prog"
    using s3 by (simp add: thn_def bnd_def)
  have e4: "thn (setChannelDesc self key desc) K h3 = K h4" for K :: "unit prog"
    using s4 by (simp add: thn_def bnd_def)
  have e5: "thn (setChannelMaster self key (master_item master)) K h4 = K h5" for K :: "unit prog"
    using s5 by (simp add: thn_def bnd_def)
  have e6: "thn (register_master self master key) K h5 = K h6" for K :: "unit prog"
    using s6 by (simp add: thn_def bnd_def)
  have e7: "thn (\<lambda>h1. if MDFVersionNumber (objs h1 self) < 400
                  then setChannelMasterType self key (Val (PInt 1)) h1
                  else setChannelMasterType self key mt h1) K h6 = K h7" for K :: "unit prog"
    using s7 by (simp add: thn_def bnd_def)
  have "add_channel self g name data master mt unit desc conv h =
     (case conv of None \<Rightarrow> ret () | Some c \<Rightarrow> attach_conversion self key c) h7"
    unfolding add_channel_def Let_def key_def[symmetric]
    by (simp only: e1 e2 e3 e4 e5 e6 e7)
  moreover have "registered self key data master mt unit desc h = h7"
    by (simp add: registered_def Let_def h7_eq r_def ob_def)
  moreover have "channel_key h self g name = key"
    by (simp add: channel_key_def key_def)
  ultimately show ?thesis
    by (simp add: ret_def split: option.splits)
qed

lemma registered_lookup:
  "map_of (self_dict (objs (registered self key data master mt unit desc h) self)) key
     = Some (next_addr h)"
  by (simp add: registered_def Let_def update_conv')

lemma registered_version:
  "MDFVersionNumber (objs (registered self key data master mt unit desc h) self)
     = MDFVersionNumber (objs h self)"
  by (simp add: registered_def Let_def)

lemma registered_channel:
  "channels (registered self key data master mt unit desc h) (next_addr h) =
     [(''data'', data), (''unit'', unit), (''description'', desc),
      (''master'', master_item master),
      (''masterType'', if MDFVersionNumber (objs h self) < 400 then Val (PInt 1) else mt)]"
  by (simp add: registered_def Let_def)

subsection \<open>What the conversion block does\<close>

lemma in_keys_iff: "k \<in> fst ` set al \<longleftrightarrow> map_of al k \<noteq> None"
  by (simp add: map_of_eq_None_iff)

lemma attach_conversion_legacy:
  assumes "map_of (self_dict (objs h self)) key = Some r"
      and "MDFVersionNumber (objs h self) < 400"
  shows "attach_conversion self key conv h =
    (case map_of conv ''cc_type'' of
       None \<Rightarrow> (Inl (KeyError (Val (PStr ''cc_type''))),
                h\<lparr>channels := (channels h)(r := AList.update ''conversion'' (Val (PDict [])) (channels h r))\<rparr>)
     | Some t \<Rightarrow>
        (let P = (case map_of conv ''conversion'' of None \<Rightarrow> PDict [] | Some c \<Rightarrow> c);
             hc = h\<lparr>channels := (channels h)(r :=
                    AList.update ''conversion'' (Val (PDict [(''type'', t), (''parameters'', P)]))
                      (channels h r))\<rparr>
         in if py_eq_const t (PInt 0) then
              (case py_getitem P ''P2'' of
                 Inl e \<Rightarrow> (Inl e, hc)
               | Inr p2 \<Rightarrow>
                   if py_eq_const p2 (PFloat (FFin 1)) then
                     (case py_getitem P ''P1'' of
                        Inl e \<Rightarrow> (Inl e, hc)
                      | Inr p1 \<Rightarrow>
                          if py_eq_const p1 (PFloat (FFin 0)) \<or> py_eq_const p1 (PFloat FNegZero)
                          then (Inr (), h\<lparr>channels := (channels h)(r :=
                                  AList.delete ''conversion'' (channels h r))\<rparr>)
                          else (Inr (), hc))
                   else (Inr (), hc))
            else (Inr (), hc)))"
  using assms
  unfolding attach_conversion_def conv_assign_def param_read_def channel_assign_def
    channel_read_def channel_pop_def channel_of_def
  by (simp add: bnd_def thn_def lift_def ret_def dict_get_def update_conv' Let_def
      in_keys_iff delete_update_same
      split: option.splits sum.splits)

lemma attach_conversion_modern:
  assumes "map_of (self_dict (objs h self)) key = Some r"
      and "\<not> MDFVersionNumber (objs h self) < 400"
  shows "attach_conversion self key conv h =
    (case map_of conv ''cc_type'' of
       None \<Rightarrow> (Inl (KeyError (Val (PStr ''cc_type''))),
                h\<lparr>channels := (channels h)(r := AList.update ''conversion'' (Val (PDict [])) (channels h r))\<rparr>)
     | Some t \<Rightarrow>
        (Inr (), h\<lparr>channels := (channels h)(r :=
           AList.update ''conversion''
             (Val (PDict [(''type'', t), (''parameters'', PDict
                ((case map_of conv ''cc_val'' of None \<Rightarrow> [] | Some v \<Rightarrow> [(''cc_val'', v)]) @
                 (case map_of conv ''cc_ref'' of None \<Rightarrow> [] | Some v \<Rightarrow> [(''cc_ref'', v)])))]))
             (channels h r))\<rparr>))"
  using assms
  unfolding attach_conversion_def conv_assign_def param_assign_def channel_assign_def
    channel_read_def channel_of_def
  by (simp add: bnd_def thn_def lift_def ret_def dict_get_def update_conv' Let_def
      in_keys_iff split: option.splits sum.splits)

subsection \<open>The example stores, evaluated\<close>

lemma fresh_eq: "fresh = mk_heap [] 300 (\<lambda>_. []) [] 3"
  by (simp add: fresh_def mdf_skeleton_init_def empty_heap_def Let_def mk_heap_def store_obj_def
      empty_meta_def numeral_2_eq_2)

lemma add_T_mk_heap:
  "add_T g (mk_heap d 300 ch ml n) =
     mk_heap (AList.update (if map_of d ''T'' \<noteq> None then ''T_'' @ str_int g else ''T'') n d) 300
       (ch(n := rec_T))
       (AList.update (Some ''Time'')
          ((case map_of ml (Some ''Time'') of None \<Rightarrow> [] | Some l \<Rightarrow> l) @
           [if map_of d ''T'' \<noteq> None then ''T_'' @ str_int g else ''T'']) ml)
       (n + 1)"
  by (simp add: add_T_def add_channel_unfold registered_def channel_key_def Let_def mk_heap_def
      store_obj_def contains_def rec_T_def)

lemma add_T_0_fresh:
  "add_T 0 fresh = mk_heap [(''T'', 3)] 300 ((\<lambda>_. [])(3 := rec_T)) [(Some ''Time'', [''T''])] 4"
  by (simp add: fresh_eq add_T_mk_heap)

lemma no_text_fields_eq:
  "no_text_fields = mk_heap [(''T'', 3)] 300
     ((\<lambda>_. [])(3 := [(''data'', Arr [PInt 1, PInt 2]), (''master'', Val (PStr ''Time'')),
         (''masterType'', Val (PInt 1))])) [(Some ''Time'', [''T''])] 4"
  by (simp add: no_text_fields_def add_T_0_fresh remove_channel_field_def getChannel_def
       contains_def channel_pop_def channel_of_def bnd_def lift_def dict_get_def field_defs
       mk_heap_def store_obj_def rec_T_def)

subsection \<open>The conversion block only touches the conversion field\<close>

lemma conv_frame_refl: "conv_frame self key h h"
  by (simp add: conv_frame_def)

lemma conv_frame_trans:
  "conv_frame self key h1 h2 \<Longrightarrow> conv_frame self key h2 h3 \<Longrightarrow> conv_frame self key h1 h3"
  by (simp add: conv_frame_def)

lemma frames_ret: "frames self key (ret x)"
  by (simp add: frames_def ret_def conv_frame_refl)

lemma frames_lift: "frames self key (lift r)"
  by (simp add: frames_def lift_def conv_frame_refl)

lemma frames_bnd:
  assumes "frames self key m" and "\<And>x. frames self key (f x)"
  shows "frames self key (bnd m f)"
  unfolding frames_def
proof (intro allI impI)
  fix h res h'
  assume b: "bnd m f h = (res, h')"
  obtain r1 h1 where m: "m h = (r1, h1)" by (cases "m h")
  have f1: "conv_frame self key h h1" using assms(1) m by (simp add: frames_def)
  show "conv_frame self key h h'"
  proof (cases r1)
    case (Inl e)
    with b m have "h' = h1" by (simp add: bnd_def)
    with f1 show ?thesis by simp
  next
    case (Inr x)
    with b m have "f x h1 = (res, h')" by (simp add: bnd_def)
    then have "conv_frame self key h1 h'" using assms(2) by (simp add: frames_def)
    with f1 show ?thesis by (rule conv_frame_trans)
  qed
qed

lemma frames_thn:
  "frames self key m \<Longrightarrow> frames self key k \<Longrightarrow> frames self key (thn m k)"
  by (simp add: thn_def frames_bnd)

lemma frames_if: "frames self key m1 \<Longrightarrow> frames self key m2 \<Longrightarrow> frames self key (if b then m1 else m2)"
  by simp

lemma frames_if_heap:
  "frames self key m1 \<Longrightarrow> frames self key m2 \<Longrightarrow> frames self key (\<lambda>h. if P h then m1 h else m2 h)"
  by (simp add: frames_def)

lemma frames_channel_of: "frames self key (channel_of self key)"
  by (simp add: frames_def channel_of_def lift_def conv_frame_refl)

lemma frames_channel_read: "frames self key (channel_read self key f)"
  unfolding channel_read_def
  by (intro frames_bnd frames_channel_of) (simp add: frames_def lift_def conv_frame_refl)

lemma frames_channel_assign: "frames self key (channel_assign self key ''conversion'' v)"
  by (auto simp add: frames_def channel_assign_def channel_of_def lift_def bnd_def dict_get_def
      conv_frame_def update_conv' split: option.splits)

lemma frames_channel_pop: "frames self key (channel_pop self key ''conversion'')"
  by (auto simp add: frames_def channel_pop_def channel_of_def lift_def bnd_def dict_get_def
      conv_frame_def delete_conv' split: option.splits)

lemma frames_conv_assign: "frames self key (conv_assign self key k v)"
  unfolding conv_assign_def
  by (intro frames_bnd frames_channel_read frames_lift frames_channel_assign)

lemma frames_param_assign: "frames self key (param_assign self key k v)"
  unfolding param_assign_def
  by (intro frames_bnd frames_channel_read frames_lift frames_channel_assign)

lemma frames_param_read: "frames self key (param_read self key k)"
  unfolding param_read_def
  by (intro frames_bnd frames_channel_read frames_lift)

lemma frames_attach_conversion: "frames self key (attach_conversion self key c)"
  unfolding attach_conversion_def
  by (intro frames_thn frames_bnd frames_if_heap frames_if frames_ret frames_lift
      frames_channel_assign frames_conv_assign frames_param_assign frames_param_read
      frames_channel_pop)

lemma attach_conversion_frame:
  "conv_frame self key h (snd (attach_conversion self key c h))"
  using frames_attach_conversion[of self key c]
  by (simp add: frames_def) (metis prod.collapse)

lemma add_channel_snd:
  "snd (add_channel self g name data master mt unit desc conv h) =
     (case conv of
        None \<Rightarrow> registered self (channel_key h self g name) data master mt unit desc h
      | Some c \<Rightarrow>
          snd (attach_conversion self (channel_key h self g name) c
            (registered self (channel_key h self g name) data master mt unit desc h)))"
  by (simp add: add_channel_unfold split: option.splits)

lemma add_channel_frame:
  "conv_frame self (channel_key h self g name)
     (registered self (channel_key h self g name) data master mt unit desc h)
     (snd (add_channel self g name data master mt unit desc conv h))"
  by (cases conv) (simp_all add: add_channel_snd conv_frame_refl attach_conversion_frame)

subsection \<open>A linear conversion in a store of the legacy format\<close>

lemma add_channel_legacy_linear:
  assumes "MDFVersionNumber (objs h self) < 400"
      and "map_of conv ''cc_type'' = Some t"
      and "py_eq_const t (PInt 0)"
  shows "add_channel self g name data master mt unit desc (Some conv) h =
    (let h7 = registered self (channel_key h self g name) data master mt unit desc h;
         r = next_addr h;
         P = (case map_of conv ''conversion'' of None \<Rightarrow> PDict [] | Some c \<Rightarrow> c);
         hc = h7\<lparr>channels := (channels h7)(r :=
                AList.update ''conversion'' (Val (PDict [(''type'', t), (''parameters'', P)]))
                  (channels h7 r))\<rparr>
     in case py_getitem P ''P2'' of
          Inl e \<Rightarrow> (Inl e, hc)
        | Inr p2 \<Rightarrow>
            if py_eq_const p2 (PFloat (FFin 1)) then
              (case py_getitem P ''P1'' of
                 Inl e \<Rightarrow> (Inl e, hc)
               | Inr p1 \<Rightarrow>
                   if py_eq_const p1 (PFloat (FFin 0)) \<or> py_eq_const p1 (PFloat FNegZero)
                   then (Inr (), h7\<lparr>channels := (channels h7)(r :=
                           AList.delete ''conversion'' (channels h7 r))\<rparr>)
                   else (Inr (), hc))
            else (Inr (), hc))"
proof -
  define h7 where "h7 = registered self (channel_key h self g name) data master mt unit desc h"
  have l7: "map_of (self_dict (objs h7 self)) (channel_key h self g name) = Some (next_addr h)"
    by (simp add: h7_def registered_lookup)
  have v7: "MDFVersionNumber (objs h7 self) < 400"
    using assms(1) by (simp add: h7_def registered_version)
  show ?thesis
    unfolding add_channel_unfold h7_def[symmetric] Let_def
    by (simp add: attach_conversion_legacy[OF l7 v7] assms(2,3) Let_def)
qed

subsection \<open>What add_channel and remove_channel leave alone\<close>

lemma add_channel_objs:
  "objs (snd (add_channel self g name data master mt unit desc conv h)) =
     (objs h)(self := (objs h self)\<lparr>self_dict :=
        AList.update (channel_key h self g name) (next_addr h) (self_dict (objs h self))\<rparr>)"
proof -
  have "objs (snd (add_channel self g name data master mt unit desc conv h)) =
      objs (registered self (channel_key h self g name) data master mt unit desc h)"
    using add_channel_frame[of self h g name data master mt unit desc conv]
    by (simp add: conv_frame_def)
  then show ?thesis by (simp add: registered_def Let_def)
qed

lemma add_channel_next_addr:
  "next_addr (snd (add_channel self g name data master mt unit desc conv h)) = next_addr h + 1"
  using add_channel_frame[of self h g name data master mt unit desc conv]
  by (simp add: conv_frame_def registered_def Let_def)

lemma add_channel_channels_other:
  assumes "r \<noteq> next_addr h"
  shows "channels (snd (add_channel self g name data master mt unit desc conv h)) r = channels h r"
proof -
  have "map_of (self_dict (objs (registered self (channel_key h self g name) data master mt unit desc h) self))
      (channel_key h self g name) \<noteq> Some r"
    using assms by (simp add: registered_lookup)
  then have "channels (snd (add_channel self g name data master mt unit desc conv h)) r =
      channels (registered self (channel_key h self g name) data master mt unit desc h) r"
    using add_channel_frame[of self h g name data master mt unit desc conv]
    by (simp add: conv_frame_def)
  then show ?thesis using assms by (simp add: registered_def Let_def)
qed

lemma add_channel_keys_other:
  "other \<noteq> self \<Longrightarrow> keys (snd (add_channel self g name data master mt unit desc conv h)) other = keys h other"
  by (simp add: keys_def add_channel_objs)

lemma self_pop_objs_other:
  "other \<noteq> self \<Longrightarrow> objs (snd (self_pop self name h)) other = objs h other"
  by (simp add: self_pop_def Let_def split: option.splits)

lemma remove_channel_objs_other:
  "other \<noteq> self \<Longrightarrow> objs (snd (remove_channel self name h)) other = objs h other"
  by (simp add: remove_channel_def Let_def self_pop_objs_other split: sum.splits prod.splits)

lemma remove_channel_keys_other:
  "other \<noteq> self \<Longrightarrow> keys (snd (remove_channel self name h)) other = keys h other"
  by (simp add: keys_def remove_channel_objs_other)

subsection \<open>The copy loop\<close>

lemma update_fresh_key: "k \<notin> fst ` set al \<Longrightarrow> AList.update k v al = al @ [(k, v)]"
  by (induction al) auto

lemma copy_channels_distinct:
  "distinct (map fst (pre @ suf)) \<Longrightarrow>
   copy_channels (pre @ suf) (map fst suf) pre = Inr (pre @ suf)"
proof (induction suf arbitrary: pre)
  case Nil
  then show ?case by simp
next
  case (Cons p suf)
  obtain k r where p: "p = (k, r)" by (cases p)
  from Cons.prems p have nk: "k \<notin> fst ` set pre" by auto
  then have lk: "map_of (pre @ p # suf) k = Some r"
    using p by (simp add: map_add_Some_iff map_of_eq_None_iff)
  have up: "AList.update k r pre = pre @ [(k, r)]"
    using nk by (rule update_fresh_key)
  have "distinct (map fst ((pre @ [(k, r)]) @ suf))"
    using Cons.prems p by simp
  then have "copy_channels ((pre @ [(k, r)]) @ suf) (map fst suf) (pre @ [(k, r)])
      = Inr ((pre @ [(k, r)]) @ suf)"
    by (rule Cons.IH)
  then show ?case
    using lk up p by (simp add: dict_get_def)
qed

lemma copy_channels_all:
  "distinct (map fst src) \<Longrightarrow> copy_channels src (map fst src) [] = Inr src"
  using copy_channels_distinct[of "[]" src] by simp

lemma copy_eq:
  assumes "self < next_addr h" and "distinct (keys h self)"
  shows "copy self h =
    (Inr (next_addr h),
     h\<lparr>objs := (objs h)(next_addr h :=
          \<lparr>self_dict = self_dict (objs h self),
           masterChannelList = masterChannelList (objs h self),
           multiProc = multiProc (objs h self),
           file_metadata = file_metadata (objs h self),
           MDFVersionNumber = MDFVersionNumber (objs h self),
           filterChannelNames = filterChannelNames (objs h self),
           convert_tables = convert_tables (objs h self),
           pandasframe = False,
           fileName = fileName (objs h self)\<rparr>),
       masterlists := (masterlists h)(next_addr h + 1 := []),
       metadatas := (metadatas h)(next_addr h + 2 :=
            [(''author'', PStr []), (''organisation'', PStr []), (''project'', PStr []),
             (''subject'', PStr []), (''comment'', PStr []), (''time'', PStr []),
             (''date'', PStr [])]),
       next_addr := next_addr h + 3\<rparr>)"
proof -
  have ne: "self \<noteq> next_addr h" using assms(1) by simp
  have d: "distinct (map fst (self_dict (objs h self)))"
    using assms(2) by (simp add: keys_def)
  show ?thesis
    using ne by (simp add: copy_def mdf_skeleton_init_def Let_def copy_channels_all[OF d])
qed

subsection \<open>Lists and association lists\<close>

lemma count_list_remove1:
  "count_list l x = 1 \<Longrightarrow> x \<notin> set (remove1 x l)"
proof (induction l)
  case Nil
  then show ?case by simp
next
  case (Cons a l)
  show ?case
  proof (cases "a = x")
    case True
    with Cons.prems have "count_list l x = 0" by simp
    then have "x \<notin> set l" by (simp add: count_list_0_iff)
    with True show ?thesis by simp
  next
    case False
    with Cons show ?thesis by simp
  qed
qed

lemma count_list_one_mem: "count_list l x = 1 \<Longrightarrow> x \<in> set l"
  by (metis count_list_0_iff zero_neq_one)

lemma set_update_distinct:
  "distinct (map fst al) \<Longrightarrow> set (AList.update k v al) \<subseteq> insert (k, v) {p \<in> set al. fst p \<noteq> k}"
proof (induction al)
  case Nil
  then show ?case by simp
next
  case (Cons p al)
  then show ?case by (auto simp add: image_iff)
qed

subsection \<open>Sequences of add_channel calls\<close>

lemma set_update_subset: "set (AList.update k v al) \<subseteq> insert (k, v) (set al)"
  by (induction al) auto

lemma store_ok_init: "store_ok (snd (mdf_skeleton_init f h0)) (fst (mdf_skeleton_init f h0))"
  by (simp add: store_ok_def mdf_skeleton_init_def Let_def keys_def)

lemma store_ok_add_channel:
  assumes "store_ok h self"
  shows "store_ok (snd (add_channel self g name data master mt unit desc conv h)) self"
proof -
  have d: "distinct (map fst (AList.update (channel_key h self g name) (next_addr h)
      (self_dict (objs h self))))"
    using assms by (simp add: store_ok_def keys_def distinct_update)
  have "r < next_addr h + 1"
    if "r \<in> snd ` set (AList.update (channel_key h self g name) (next_addr h) (self_dict (objs h self)))"
    for r
  proof -
    from that obtain k where "(k, r) \<in> set (AList.update (channel_key h self g name) (next_addr h)
        (self_dict (objs h self)))" by auto
    then have "(k, r) = (channel_key h self g name, next_addr h) \<or> (k, r) \<in> set (self_dict (objs h self))"
      using set_update_subset by fastforce
    then show ?thesis
    proof
      assume "(k, r) = (channel_key h self g name, next_addr h)"
      then show ?thesis by simp
    next
      assume "(k, r) \<in> set (self_dict (objs h self))"
      then have "r \<in> snd ` set (self_dict (objs h self))" by force
      then have "r < next_addr h" using assms by (auto simp add: store_ok_def)
      then show ?thesis by simp
    qed
  qed
  with d show ?thesis
    by (simp add: store_ok_def keys_def add_channel_objs add_channel_next_addr)
qed

lemma store_ok_run_adds:
  "store_ok h self \<Longrightarrow> store_ok (run_adds self calls h) self"
  unfolding run_adds_def
proof (induction calls arbitrary: h)
  case Nil
  then show ?case by simp
next
  case (Cons c calls)
  obtain g name data master mt unit desc conv
    where c: "c = AddChannel g name data master mt unit desc conv" by (cases c)
  have "store_ok (do_add self c h) self"
    using Cons.prems by (simp add: c store_ok_add_channel)
  then show ?case using Cons.IH by simp
qed

subsection \<open>Three channels named T\<close>

lemma str_int_1: "str_int 1 = ''1''"
  by (simp add: str_int_def str_nat.simps digit_char_def)

lemma str_int_examples:
  "str_int 0 = ''0'' \<and> str_int 7 = ''7'' \<and> str_int 10 = ''10'' \<and> str_int 305 = ''305''
   \<and> str_int (- 42) = ''-42''"
  by (simp add: str_int_def str_nat.simps digit_char_def)

lemma add_T_1_0_fresh:
  "add_T 1 (add_T 0 fresh) = mk_heap [(''T'', 3), (''T_1'', 4)] 300
     ((\<lambda>_. [])(3 := rec_T, 4 := rec_T)) [(Some ''Time'', [''T'', ''T_1''])] 5"
  by (simp add: add_T_0_fresh add_T_mk_heap str_int_1)

lemma collided_eq:
  "collided = mk_heap [(''T'', 3), (''T_1'', 5)] 300
     ((\<lambda>_. [])(3 := rec_T, 4 := rec_T, 5 := rec_T)) [(Some ''Time'', [''T'', ''T_1'', ''T_1''])] 6"
  by (simp add: collided_def add_T_1_0_fresh add_T_mk_heap str_int_1)

subsection \<open>Removing a field of a channel that exists\<close>

lemma remove_channel_field_present:
  assumes "getChannel h self name = Some r"
  shows "remove_channel_field self name f h =
    (case map_of (channels h r) f of
       None \<Rightarrow> (Inr (Val PNone), h)
     | Some v \<Rightarrow> (Inr v, h\<lparr>channels := (channels h)(r := AList.delete f (channels h r))\<rparr>))"
proof -
  have lk: "map_of (self_dict (objs h self)) name = Some r"
    using assms by (simp add: getChannel_def split: if_splits)
  show ?thesis
  proof (cases "map_of (channels h r) f")
    case None
    then have "f \<notin> set (map fst (channels h r))"
      by (simp add: map_of_eq_None_iff)
    with assms show ?thesis
      by (simp add: remove_channel_field_def None)
  next
    case (Some v)
    then have "f \<in> set (map fst (channels h r))"
      by (metis in_keys_iff option.distinct(1) set_map)
    with assms lk Some show ?thesis
      by (simp add: remove_channel_field_def channel_pop_def channel_of_def bnd_def lift_def
          dict_get_def)
  qed
qed

subsection \<open>The master channel list stays consistent while no key is overwritten\<close>

lemma index_get_Inr:
  "index_get ml m = Inr (k, l) \<Longrightarrow> map_of ml k = Some l"
  by (cases "(ml, m)" rule: index_get.cases) (auto split: option.splits)

lemma mset_update_lists:
  "distinct (map fst al) \<Longrightarrow>
   mset (concat (map snd (AList.update k v al))) + mset (case map_of al k of None \<Rightarrow> [] | Some l \<Rightarrow> l)
     = mset (concat (map snd al)) + mset v"
proof (induction al)
  case Nil
  then show ?case by simp
next
  case (Cons p al)
  obtain k' l' where p: "p = (k', l')" by (cases p)
  show ?case
  proof (cases "k' = k")
    case True
    then show ?thesis using p by simp
  next
    case False
    then show ?thesis using p Cons by simp
  qed
qed

lemma add_channel_masterlists:
  "masterlists (snd (add_channel self g name data master mt unit desc conv h)) =
     (masterlists h)(masterChannelList (objs h self) :=
        AList.update master
          ((case map_of (masterlists h (masterChannelList (objs h self))) master of
              None \<Rightarrow> [] | Some l \<Rightarrow> l) @ [channel_key h self g name])
          (masterlists h (masterChannelList (objs h self))))"
proof -
  have "masterlists (snd (add_channel self g name data master mt unit desc conv h)) =
      masterlists (registered self (channel_key h self g name) data master mt unit desc h)"
    using add_channel_frame[of self h g name data master mt unit desc conv]
    by (simp add: conv_frame_def)
  then show ?thesis by (simp add: registered_def Let_def)
qed

lemma index_ok_add:
  assumes "index_ok h self" and "\<not> contains h self (channel_key h self g name)"
  shows "index_ok (snd (add_channel self g name data master mt unit desc conv h)) self"
proof -
  define key where "key = channel_key h self g name"
  define ml where "ml = masterlists h (masterChannelList (objs h self))"
  define l0 where "l0 = (case map_of ml master of None \<Rightarrow> [] | Some l \<Rightarrow> l)"
  define h' where "h' = snd (add_channel self g name data master mt unit desc conv h)"
  have nk: "key \<notin> fst ` set (self_dict (objs h self))"
    using assms(2) by (simp add: contains_def key_def map_of_eq_None_iff)
  have k': "keys h' self = keys h self @ [key]"
    by (simp add: h'_def keys_def add_channel_objs key_def[symmetric] update_fresh_key[OF nk])
  have d1: "distinct (keys h' self)"
    using assms(1) nk by (simp add: k' index_ok_def) (simp add: keys_def)
  have m': "masterlists h' (masterChannelList (objs h' self)) = AList.update master (l0 @ [key]) ml"
    by (simp add: h'_def add_channel_objs add_channel_masterlists ml_def l0_def key_def)
  have dml: "distinct (map fst ml)"
    using assms(1) by (simp add: index_ok_def ml_def)
  have d2: "distinct (map fst (AList.update master (l0 @ [key]) ml))"
    using dml by (rule distinct_update)
  have "mset (concat (map snd (AList.update master (l0 @ [key]) ml))) + mset l0
      = mset (concat (map snd ml)) + mset (l0 @ [key])"
    using mset_update_lists[OF dml, of master "l0 @ [key]"] by (simp add: l0_def)
  then have "mset (concat (map snd (AList.update master (l0 @ [key]) ml)))
      = mset (concat (map snd ml)) + {#key#}"
    by simp
  moreover have "mset (concat (map snd ml)) = mset (keys h self)"
    using assms(1) by (simp add: index_ok_def index_members_def ml_def)
  ultimately have "mset (index_members h' self) = mset (keys h' self)"
    by (simp add: index_members_def m' k')
  with d1 d2 show ?thesis
    by (simp add: index_ok_def h'_def[symmetric] m')
qed

lemma index_ok_remove:
  assumes "index_ok h self"
  shows "index_ok (snd (remove_channel self name h)) self"
proof -
  define a where "a = masterChannelList (objs h self)"
  define ml where "ml = masterlists h a"
  show ?thesis
  proof (cases "index_get ml (getChannelMaster h self name)")
    case (Inl e)
    then show ?thesis
      using assms by (simp add: remove_channel_def Let_def a_def[symmetric] ml_def[symmetric])
  next
    case (Inr kl)
    obtain k l where kl: "kl = (k, l)" by (cases kl)
    show ?thesis
    proof (cases "name \<in> set l")
      case False
      then show ?thesis
        using assms Inr kl
        by (simp add: remove_channel_def Let_def a_def[symmetric] ml_def[symmetric])
    next
      case True
      have lk: "map_of ml k = Some l"
        using Inr kl by (simp add: index_get_Inr)
      have dml: "distinct (map fst ml)"
        using assms by (simp add: index_ok_def ml_def a_def)
      have "(k, l) \<in> set ml" using lk by (rule map_of_SomeD)
      then have "name \<in> set (concat (map snd ml))" using True by force
      then have ni: "name \<in> set (index_members h self)"
        by (simp add: index_members_def ml_def a_def)
      have "mset (index_members h self) = mset (keys h self)"
        using assms by (simp add: index_ok_def)
      then have "set (index_members h self) = set (keys h self)"
        by (rule mset_eq_setD)
      with ni have nkeys: "name \<in> set (keys h self)" by simp
      then have "name \<in> fst ` set (self_dict (objs h self))"
        by (simp add: keys_def)
      then have "map_of (self_dict (objs h self)) name \<noteq> None"
        by (simp add: in_keys_iff)
      then obtain r where r: "map_of (self_dict (objs h self)) name = Some r"
        by auto
      define h1 where "h1 = h\<lparr>masterlists := (masterlists h)(a := AList.update k (remove1 name l) ml)\<rparr>"
      define h' where "h' = h1\<lparr>objs := (objs h1)(self :=
          (objs h1 self)\<lparr>self_dict := AList.delete name (self_dict (objs h1 self))\<rparr>)\<rparr>"
      have run: "remove_channel self name h = (Inr r, h')"
        using Inr kl True r
        by (simp add: remove_channel_def Let_def a_def[symmetric] ml_def[symmetric] self_pop_def
            h1_def h'_def)
      have dk: "distinct (keys h self)" using assms by (simp add: index_ok_def)
      have k': "keys h' self = remove1 name (keys h self)"
        using dk by (simp add: h'_def h1_def keys_def delete_keys distinct_remove1_removeAll)
      have m': "masterlists h' (masterChannelList (objs h' self)) = AList.update k (remove1 name l) ml"
        by (simp add: h'_def h1_def a_def)
      define A where "A = mset (concat (map snd (AList.update k (remove1 name l) ml)))"
      define L' where "L' = mset l - {#name#}"
      have l: "mset l = L' + {#name#}"
        using True by (simp add: L'_def)
      have "A + mset l = mset (concat (map snd ml)) + mset (remove1 name l)"
        using mset_update_lists[OF dml, of k "remove1 name l"] lk by (simp add: A_def)
      then have "A + mset l = mset (keys h self) + L'"
        using assms by (simp add: index_ok_def index_members_def ml_def a_def L'_def)
      then have "(A + {#name#}) + L' = mset (keys h self) + L'"
        by (simp add: l ac_simps)
      then have "A + {#name#} = mset (keys h self)"
        by (simp only: add_right_cancel)
      then have "mset (keys h self) - {#name#} = A"
        by (simp add: eq_commute[of _ "mset (keys h self)"])
      then have "mset (concat (map snd (AList.update k (remove1 name l) ml)))
          = mset (keys h self) - {#name#}"
        by (simp add: A_def)
      then have "mset (index_members h' self) = mset (keys h' self)"
        by (simp add: index_members_def m' k')
      moreover have "distinct (keys h' self)" using dk by (simp add: k')
      moreover have "distinct (map fst (AList.update k (remove1 name l) ml))"
        using dml by (rule distinct_update)
      ultimately show ?thesis
        by (simp add: index_ok_def run m')
    qed
  qed
qed

lemma index_ok_setChannel:
  assumes "index_ok h self"
  shows "index_ok (snd (setChannel self name it field h)) self"
  using assms
  by (simp add: setChannel_def index_ok_def keys_def index_members_def split: option.splits)

lemma index_ok_init: "index_ok (snd (mdf_skeleton_init f h0)) (fst (mdf_skeleton_init f h0))"
  by (simp add: index_ok_def mdf_skeleton_init_def Let_def keys_def index_members_def)

lemma index_ok_calls:
  "index_ok h self \<Longrightarrow> no_overwrite self calls h \<Longrightarrow> index_ok (fold (do_call self) calls h) self"
proof (induction calls arbitrary: h)
  case Nil
  then show ?case by simp
next
  case (Cons c calls)
  have "index_ok (do_call self c h) self"
  proof (cases c)
    case (Adding ac)
    obtain g name data master mt unit desc conv
      where ac: "ac = AddChannel g name data master mt unit desc conv" by (cases ac)
    show ?thesis
      using Cons.prems by (simp add: Adding ac index_ok_add)
  next
    case (Removing name)
    then show ?thesis using Cons.prems by (simp add: index_ok_remove)
  next
    case (Setting name it field)
    then show ?thesis using Cons.prems by (simp add: index_ok_setChannel)
  qed
  then show ?case using Cons by simp
qed

lemma index_consistent_without_overwrite:
  assumes "no_overwrite (fst (mdf_skeleton_init f h0)) calls (snd (mdf_skeleton_init f h0))"
  shows "mset (index_members (fold (do_call (fst (mdf_skeleton_init f h0))) calls
             (snd (mdf_skeleton_init f h0))) (fst (mdf_skeleton_init f h0)))
       = mset (keys (fold (do_call (fst (mdf_skeleton_init f h0))) calls
             (snd (mdf_skeleton_init f h0))) (fst (mdf_skeleton_init f h0)))"
  using index_ok_calls[OF index_ok_init assms] by (simp add: index_ok_def)

subsection \<open>A call whose name is taken\<close>

text \<open>
  In a store built by any sequence of \<open>add_channel\<close> calls on a new instance the keys
  are distinct, and they stay distinct after a further call. When the name of that call
  is already a key, the key keeps its channel dictionary, whose contents are unchanged,
  and the new channel dictionary is registered under \<open>name + '_' + str(dataGroup)\<close>.
  Nothing here says that the suffixed key was free.
\<close>

lemma add_channel_collision:
  assumes "self = fst (mdf_skeleton_init f h0)"
      and "h = run_adds self calls (snd (mdf_skeleton_init f h0))"
      and "getChannel h self name = Some r0"
  shows "distinct (keys h self)
       \<and> distinct (keys (snd (add_channel self g name data master mt unit desc conv h)) self)
       \<and> getChannel (snd (add_channel self g name data master mt unit desc conv h)) self name
           = Some r0
       \<and> channels (snd (add_channel self g name data master mt unit desc conv h)) r0 = channels h r0
       \<and> getChannel (snd (add_channel self g name data master mt unit desc conv h)) self
            (name @ ''_'' @ str_int g) = Some (next_addr h)
       \<and> next_addr h \<noteq> r0
       \<and> map_of (channels (snd (add_channel self g name data master mt unit desc conv h))
            (next_addr h)) dataField = Some data
       \<and> map_of (channels (snd (add_channel self g name data master mt unit desc conv h))
            (next_addr h)) unitField = Some unit
       \<and> map_of (channels (snd (add_channel self g name data master mt unit desc conv h))
            (next_addr h)) descriptionField = Some desc"
proof -
  define h' where "h' = snd (add_channel self g name data master mt unit desc conv h)"
  define key where "key = name @ ''_'' @ str_int g"
  have ok: "store_ok h self"
    unfolding assms(1,2) by (rule store_ok_run_adds, rule store_ok_init)
  have ok': "store_ok h' self"
    unfolding h'_def using ok by (rule store_ok_add_channel)
  have lk: "map_of (self_dict (objs h self)) name = Some r0"
    using assms(3) by (simp add: getChannel_def split: if_splits)
  then have ck: "channel_key h self g name = key"
    by (simp add: channel_key_def contains_def key_def)
  have ne: "key \<noteq> name" by (simp add: key_def)
  have "(name, r0) \<in> set (self_dict (objs h self))"
    using lk by (rule map_of_SomeD)
  then have "r0 \<in> snd ` set (self_dict (objs h self))" by force
  then have lt: "r0 < next_addr h" using ok by (auto simp add: store_ok_def)
  have o': "self_dict (objs h' self) = AList.update key (next_addr h) (self_dict (objs h self))"
    by (simp add: h'_def add_channel_objs ck)
  have g1: "getChannel h' self name = Some r0"
    using lk ne by (simp add: getChannel_def contains_def o' update_conv')
  have g2: "getChannel h' self key = Some (next_addr h)"
    by (simp add: getChannel_def contains_def o' update_conv')
  have c1: "channels h' r0 = channels h r0"
    unfolding h'_def using lt by (simp add: add_channel_channels_other)
  have fr: "conv_frame self key (registered self key data master mt unit desc h) h'"
    unfolding h'_def using add_channel_frame[of self h g name data master mt unit desc conv]
    by (simp add: ck)
  have f: "map_of (channels h' (next_addr h)) fld
      = map_of (channels (registered self key data master mt unit desc h) (next_addr h)) fld"
    if "fld \<noteq> ''conversion''" for fld
    using fr that by (simp add: conv_frame_def)
  have n: "map_of (channels h' (next_addr h)) dataField = Some data"
    "map_of (channels h' (next_addr h)) unitField = Some unit"
    "map_of (channels h' (next_addr h)) descriptionField = Some desc"
    by (simp_all add: f field_defs registered_channel)
  show ?thesis
    using ok ok' g1 g2 c1 lt n
    by (simp add: store_ok_def h'_def[symmetric] key_def)
qed

lemma add_channel_collision_example:
  "(0::nat) = fst (mdf_skeleton_init False empty_heap)
   \<and> add_T 0 fresh = run_adds 0 [AddChannel 0 ''T'' (Arr [PInt 1, PInt 2]) (Some ''Time'')
         (Val (PInt 2)) (Val (PStr ''s'')) (Val (PStr ''d'')) None] (snd (mdf_skeleton_init False empty_heap))
   \<and> getChannel (add_T 0 fresh) 0 ''T'' = Some 3
   \<and> distinct (keys (add_T 1 (add_T 0 fresh)) 0)
   \<and> getChannel (add_T 1 (add_T 0 fresh)) 0 ''T'' = Some 3
   \<and> channels (add_T 1 (add_T 0 fresh)) 3 = channels (add_T 0 fresh) 3
   \<and> getChannel (add_T 1 (add_T 0 fresh)) 0 ''T_1'' = Some 4
   \<and> map_of (channels (add_T 1 (add_T 0 fresh)) 4) dataField = Some (Arr [PInt 1, PInt 2])"
proof -
  have a: "(0::nat) = fst (mdf_skeleton_init False empty_heap)"
    by (simp add: mdf_skeleton_init_def empty_heap_def Let_def)
  have b: "add_T 0 fresh = run_adds 0 [AddChannel 0 ''T'' (Arr [PInt 1, PInt 2]) (Some ''Time'')
         (Val (PInt 2)) (Val (PStr ''s'')) (Val (PStr ''d'')) None] (snd (mdf_skeleton_init False empty_heap))"
    by (simp add: run_adds_def add_T_def fresh_def)
  have c: "getChannel (add_T 0 fresh) 0 ''T'' = Some 3"
    by (simp add: add_T_0_fresh mk_heap_def store_obj_def getChannel_def contains_def)
  have n: "next_addr (add_T 0 fresh) = 4"
    by (simp add: add_T_0_fresh mk_heap_def)
  show ?thesis
    using add_channel_collision[OF a b c, where g = 1 and data = "Arr [PInt 1, PInt 2]"
        and master = "Some ''Time''" and mt = "Val (PInt 2)" and unit = "Val (PStr ''s'')"
        and desc = "Val (PStr ''d'')" and conv = None] a c
    by (simp add: b[symmetric] n str_int_1 add_T_def[symmetric])
qed

subsection \<open>What copy does\<close>

text \<open>
  For an instance that exists in the heap (its keys distinct, as the keys of a dictionary
  are), \<open>copy\<close> returns a new instance whose file name, version number,
  multi-processing flag, name-filtering flag and \<open>convert_tables\<close> flag are those of
  the source, whose \<open>_pandasframe\<close> flag is the constructor's \<open>False\<close>, whose keys
  are the source's, bound to the same channel dictionaries, and whose master channel
  list and file metadata are the source's objects. The source is unchanged. Afterwards
  \<open>add_channel\<close> and \<open>remove_channel\<close> on either instance leave the keys of the
  other as they were.
\<close>

lemma copy_is_shallow:
  assumes "self < next_addr h" and "distinct (keys h self)"
  shows "fst (copy self h) = Inr (next_addr h)
     \<and> fileName (objs (snd (copy self h)) (next_addr h)) = fileName (objs h self)
     \<and> MDFVersionNumber (objs (snd (copy self h)) (next_addr h)) = MDFVersionNumber (objs h self)
     \<and> multiProc (objs (snd (copy self h)) (next_addr h)) = multiProc (objs h self)
     \<and> filterChannelNames (objs (snd (copy self h)) (next_addr h)) = filterChannelNames (objs h self)
     \<and> convert_tables (objs (snd (copy self h)) (next_addr h)) = convert_tables (objs h self)
     \<and> pandasframe (objs (snd (copy self h)) (next_addr h)) = False
     \<and> keys (snd (copy self h)) (next_addr h) = keys h self
     \<and> self_dict (objs (snd (copy self h)) (next_addr h)) = self_dict (objs h self)
     \<and> masterChannelList (objs (snd (copy self h)) (next_addr h)) = masterChannelList (objs h self)
     \<and> file_metadata (objs (snd (copy self h)) (next_addr h)) = file_metadata (objs h self)
     \<and> objs (snd (copy self h)) self = objs h self
     \<and> channels (snd (copy self h)) = channels h
     \<and> keys (snd (add_channel (next_addr h) g name data master mt unit desc conv (snd (copy self h)))) self
           = keys h self
     \<and> keys (snd (add_channel self g name data master mt unit desc conv (snd (copy self h)))) (next_addr h)
           = keys h self
     \<and> keys (snd (remove_channel (next_addr h) rname (snd (copy self h)))) self = keys h self
     \<and> keys (snd (remove_channel self rname (snd (copy self h)))) (next_addr h) = keys h self"
proof -
  have ne: "self \<noteq> next_addr h" "next_addr h \<noteq> self" using assms(1) by simp_all
  have k1: "keys (snd (copy self h)) self = keys h self"
    using ne by (simp add: copy_eq[OF assms] keys_def)
  have k2: "keys (snd (copy self h)) (next_addr h) = keys h self"
    by (simp add: copy_eq[OF assms] keys_def)
  have a: "keys (snd (add_channel (next_addr h) g name data master mt unit desc conv (snd (copy self h)))) self
      = keys h self"
    using add_channel_keys_other[OF ne(1)] k1 by simp
  have b: "keys (snd (add_channel self g name data master mt unit desc conv (snd (copy self h)))) (next_addr h)
      = keys h self"
    using add_channel_keys_other[OF ne(2)] k2 by simp
  have c: "keys (snd (remove_channel (next_addr h) rname (snd (copy self h)))) self = keys h self"
    using remove_channel_keys_other[OF ne(1)] k1 by simp
  have d: "keys (snd (remove_channel self rname (snd (copy self h)))) (next_addr h) = keys h self"
    using remove_channel_keys_other[OF ne(2)] k2 by simp
  show ?thesis
    unfolding a b c d using ne by (simp add: copy_eq[OF assms] keys_def)
qed

lemma tabular_store_eq:
  "tabular_store = (mk_heap [(''T'', 3)] 300 ((\<lambda>_. [])(3 := rec_T)) [(Some ''Time'', [''T''])] 4)
     \<lparr>objs := (\<lambda>_. empty_obj)(0 := (store_obj [(''T'', 3)] 300)\<lparr>pandasframe := True\<rparr>)\<rparr>"
  by (simp add: tabular_store_def add_T_0_fresh mk_heap_def)

lemma copy_is_shallow_example:
  "(0::nat) < next_addr (add_T 0 fresh) \<and> distinct (keys (add_T 0 fresh) 0)
   \<and> fst (copy 0 (add_T 0 fresh)) = Inr 4
   \<and> keys (snd (copy 0 (add_T 0 fresh))) 4 = [''T'']
   \<and> self_dict (objs (snd (copy 0 (add_T 0 fresh))) 4) = [(''T'', 3)]
   \<and> masterChannelList (objs (snd (copy 0 (add_T 0 fresh))) 4) = 1
   \<and> file_metadata (objs (snd (copy 0 (add_T 0 fresh))) 4) = 2
   \<and> MDFVersionNumber (objs (snd (copy 0 (add_T 0 fresh))) 4) = 300
   \<and> keys (snd (add_channel 4 1 ''U'' (Arr []) (Some ''Time'') (Val (PInt 1)) (Val (PStr ''s''))
        (Val (PStr ''d'')) None (snd (copy 0 (add_T 0 fresh))))) 0 = [''T'']
   \<and> keys (snd (remove_channel 0 ''T'' (snd (copy 0 (add_T 0 fresh))))) 4 = [''T'']"
proof -
  have n: "next_addr (add_T 0 fresh) = 4"
    by (simp add: add_T_0_fresh mk_heap_def)
  have a: "(0::nat) < next_addr (add_T 0 fresh)" by (simp add: n)
  have k: "keys (add_T 0 fresh) 0 = [''T'']"
    by (simp add: add_T_0_fresh mk_heap_def store_obj_def keys_def)
  have b: "distinct (keys (add_T 0 fresh) 0)" by (simp add: k)
  have o: "objs (add_T 0 fresh) 0 = store_obj [(''T'', 3)] 300"
    by (simp add: add_T_0_fresh mk_heap_def)
  show ?thesis
    using copy_is_shallow[OF a b, where g = 1 and name = "''U''" and data = "Arr []"
        and master = "Some ''Time''" and mt = "Val (PInt 1)" and unit = "Val (PStr ''s'')"
        and desc = "Val (PStr ''d'')" and conv = None and rname = "''T''"]
    by (simp add: n k o store_obj_def)
qed

section \<open>The master channel list after a second collision\<close>

text \<open>
  Claim C1 at the calls \<open>add_channel(0, 'T', ...)\<close>, \<open>add_channel(1, 'T', ...)\<close>,
  \<open>add_channel(1, 'T', ...)\<close> on a new store, all with master \<open>Time\<close>: the third
  call finds \<open>T\<close> taken, takes the key \<open>T_1\<close>, which exists too, replaces its
  channel dictionary and appends \<open>T_1\<close> to the list of \<open>Time\<close> a second time. The
  names in the master channel list are then not the keys of the store, and after
  \<open>remove_channel('T_1')\<close> the list still holds \<open>T_1\<close>, which is no key any more.
\<close>

theorem second_collision_duplicates_index_entry:
  "collided = run_adds 0
     [AddChannel 0 ''T'' (Arr [PInt 1, PInt 2]) (Some ''Time'') (Val (PInt 2)) (Val (PStr ''s''))
        (Val (PStr ''d'')) None,
      AddChannel 1 ''T'' (Arr [PInt 1, PInt 2]) (Some ''Time'') (Val (PInt 2)) (Val (PStr ''s''))
        (Val (PStr ''d'')) None,
      AddChannel 1 ''T'' (Arr [PInt 1, PInt 2]) (Some ''Time'') (Val (PInt 2)) (Val (PStr ''s''))
        (Val (PStr ''d'')) None]
     (snd (mdf_skeleton_init False empty_heap))
   \<and> keys collided 0 = [''T'', ''T_1'']
   \<and> index_members collided 0 = [''T'', ''T_1'', ''T_1'']
   \<and> mset (index_members collided 0) \<noteq> mset (keys collided 0)
   \<and> fst (remove_channel 0 ''T_1'' collided) = Inr 5
   \<and> keys (snd (remove_channel 0 ''T_1'' collided)) 0 = [''T'']
   \<and> index_members (snd (remove_channel 0 ''T_1'' collided)) 0 = [''T'', ''T_1'']
   \<and> set (index_members (snd (remove_channel 0 ''T_1'' collided)) 0)
        \<noteq> set (keys (snd (remove_channel 0 ''T_1'' collided)) 0)"
proof -
  have r: "collided = run_adds 0
     [AddChannel 0 ''T'' (Arr [PInt 1, PInt 2]) (Some ''Time'') (Val (PInt 2)) (Val (PStr ''s''))
        (Val (PStr ''d'')) None,
      AddChannel 1 ''T'' (Arr [PInt 1, PInt 2]) (Some ''Time'') (Val (PInt 2)) (Val (PStr ''s''))
        (Val (PStr ''d'')) None,
      AddChannel 1 ''T'' (Arr [PInt 1, PInt 2]) (Some ''Time'') (Val (PInt 2)) (Val (PStr ''s''))
        (Val (PStr ''d'')) None]
     (snd (mdf_skeleton_init False empty_heap))"
    by (simp add: run_adds_def collided_def add_T_def fresh_def)
  have k: "keys collided 0 = [''T'', ''T_1'']"
    by (simp add: collided_eq mk_heap_def store_obj_def keys_def)
  have i: "index_members collided 0 = [''T'', ''T_1'', ''T_1'']"
    by (simp add: collided_eq mk_heap_def store_obj_def index_members_def)
  have rm: "remove_channel 0 ''T_1'' collided =
      (Inr 5, mk_heap [(''T'', 3)] 300 ((\<lambda>_. [])(3 := rec_T, 4 := rec_T, 5 := rec_T))
         [(Some ''Time'', [''T'', ''T_1''])] 6)"
    by (simp add: collided_eq remove_channel_def Let_def getChannelMaster_def getChannelField_def
        getChannel_def contains_def masterField_def rec_T_def mk_heap_def store_obj_def self_pop_def)
  have k2: "keys (snd (remove_channel 0 ''T_1'' collided)) 0 = [''T'']"
    by (simp add: rm mk_heap_def store_obj_def keys_def)
  have i2: "index_members (snd (remove_channel 0 ''T_1'' collided)) 0 = [''T'', ''T_1'']"
    by (simp add: rm mk_heap_def store_obj_def index_members_def)
  have m: "mset [''T'', ''T_1'', ''T_1''] \<noteq> mset [''T'', ''T_1'']"
    by (metis length_Cons list.size(3) n_not_Suc_n size_mset)
  have s: "set [''T'', ''T_1''] \<noteq> set [''T'']"
    by auto
  show ?thesis
    unfolding k i k2 i2 using r m s by (simp add: rm)
qed

section \<open>Name collisions\<close>

text \<open>
  Claim C2 at the calls \<open>add_channel(0, 'T', array([1, 2]), 'Time')\<close>,
  \<open>add_channel(1, 'T', array([1, 2]), 'Time')\<close>, \<open>add_channel(1, 'T', array([9]), 'Time')\<close>
  on a new store. After the second call the keys are \<open>T\<close> and \<open>T_1\<close>. The third call
  finds \<open>T\<close> taken and takes \<open>T_1\<close> (a call from data group 12 would take
  \<open>T_12\<close>), which is taken too: it returns normally, the keys are still \<open>T\<close> and
  \<open>T_1\<close>, and the channel registered under \<open>T_1\<close> by the second call is gone, its
  data replaced by that of the third. Three calls leave two keys.
\<close>

theorem second_collision_overwrites_record:
  "keys (add_T 1 (add_T 0 fresh)) 0 = [''T'', ''T_1'']
   \<and> getChannel (add_T 1 (add_T 0 fresh)) 0 ''T_1'' = Some 4
   \<and> getChannelField (add_T 1 (add_T 0 fresh)) 0 ''T_1'' dataField = Arr [PInt 1, PInt 2]
   \<and> channel_key (add_T 1 (add_T 0 fresh)) 0 1 ''T'' = ''T_1''
   \<and> channel_key (add_T 1 (add_T 0 fresh)) 0 12 ''T'' = ''T_12''
   \<and> fst (add_channel 0 1 ''T'' (Arr [PInt 9]) (Some ''Time'') (Val (PInt 1)) (Val (PStr ''s''))
        (Val (PStr ''d'')) None (add_T 1 (add_T 0 fresh))) = Inr ()
   \<and> keys (snd (add_channel 0 1 ''T'' (Arr [PInt 9]) (Some ''Time'') (Val (PInt 1))
        (Val (PStr ''s'')) (Val (PStr ''d'')) None (add_T 1 (add_T 0 fresh)))) 0 = [''T'', ''T_1'']
   \<and> getChannel (snd (add_channel 0 1 ''T'' (Arr [PInt 9]) (Some ''Time'') (Val (PInt 1))
        (Val (PStr ''s'')) (Val (PStr ''d'')) None (add_T 1 (add_T 0 fresh)))) 0 ''T_1'' = Some 5
   \<and> getChannelField (snd (add_channel 0 1 ''T'' (Arr [PInt 9]) (Some ''Time'') (Val (PInt 1))
        (Val (PStr ''s'')) (Val (PStr ''d'')) None (add_T 1 (add_T 0 fresh)))) 0 ''T_1'' dataField
        = Arr [PInt 9]
   \<and> getChannelField (snd (add_channel 0 1 ''T'' (Arr [PInt 9]) (Some ''Time'') (Val (PInt 1))
        (Val (PStr ''s'')) (Val (PStr ''d'')) None (add_T 1 (add_T 0 fresh)))) 0 ''T'' dataField
        = Arr [PInt 1, PInt 2]"
proof -
  have k: "channel_key (add_T 1 (add_T 0 fresh)) 0 1 ''T'' = ''T_1''"
    "channel_key (add_T 1 (add_T 0 fresh)) 0 12 ''T'' = ''T_12''"
    by (simp_all add: add_T_1_0_fresh channel_key_def contains_def mk_heap_def store_obj_def
        str_int_def str_nat.simps digit_char_def)
  have third: "add_channel 0 1 ''T'' (Arr [PInt 9]) (Some ''Time'') (Val (PInt 1)) (Val (PStr ''s''))
        (Val (PStr ''d'')) None (add_T 1 (add_T 0 fresh)) =
      (Inr (), mk_heap [(''T'', 3), (''T_1'', 5)] 300
         ((\<lambda>_. [])(3 := rec_T, 4 := rec_T,
            5 := [(''data'', Arr [PInt 9]), (''unit'', Val (PStr ''s'')),
                  (''description'', Val (PStr ''d'')), (''master'', Val (PStr ''Time'')),
                  (''masterType'', Val (PInt 1))]))
         [(Some ''Time'', [''T'', ''T_1'', ''T_1''])] 6)"
    unfolding add_channel_unfold k
    by (simp add: add_T_1_0_fresh registered_def Let_def mk_heap_def store_obj_def)
  have before: "keys (add_T 1 (add_T 0 fresh)) 0 = [''T'', ''T_1'']"
    "getChannel (add_T 1 (add_T 0 fresh)) 0 ''T_1'' = Some 4"
    "getChannelField (add_T 1 (add_T 0 fresh)) 0 ''T_1'' dataField = Arr [PInt 1, PInt 2]"
    by (simp_all add: add_T_1_0_fresh mk_heap_def store_obj_def keys_def getChannel_def
        getChannelField_def contains_def rec_T_def dataField_def)
  show ?thesis
    unfolding third
    by (simp add: k before)
      (simp add: mk_heap_def store_obj_def keys_def getChannel_def getChannelField_def
        contains_def rec_T_def dataField_def)
qed

section \<open>The master type of a new channel\<close>

text \<open>
  Claim C3. After \<open>add_channel\<close>, whatever its other arguments and whether or not
  the conversion block raised, the \<open>masterType\<close> of the channel it registered is \<open>1\<close>
  in a store whose version number is below 400, and the \<open>master_type\<close> argument
  otherwise.
\<close>

theorem add_channel_master_type:
  "getChannelMasterType (snd (add_channel self g name data master mt unit desc conv h)) self
     (channel_key h self g name)
   = (if MDFVersionNumber (objs h self) < 400 then Val (PInt 1) else mt)"
proof -
  define key where "key = channel_key h self g name"
  define h7 where "h7 = registered self key data master mt unit desc h"
  define h' where "h' = snd (add_channel self g name data master mt unit desc conv h)"
  have fr: "conv_frame self key h7 h'"
    unfolding key_def h7_def h'_def by (rule add_channel_frame)
  have l7: "map_of (self_dict (objs h7 self)) key = Some (next_addr h)"
    by (simp add: h7_def registered_lookup)
  have l': "map_of (self_dict (objs h' self)) key = Some (next_addr h)"
    using fr l7 by (simp add: conv_frame_def)
  have "map_of (channels h' (next_addr h)) ''masterType''
      = map_of (channels h7 (next_addr h)) ''masterType''"
    using fr by (simp add: conv_frame_def)
  also have "\<dots> = Some (if MDFVersionNumber (objs h self) < 400 then Val (PInt 1) else mt)"
    by (simp add: h7_def registered_channel)
  finally have "getChannelMasterType h' self key
      = (if MDFVersionNumber (objs h self) < 400 then Val (PInt 1) else mt)"
    using l' by (simp add: getChannelMasterType_def getChannelField_def getChannel_def contains_def
        masterTypeField_def)
  then show ?thesis
    by (simp add: h'_def key_def)
qed

theorem add_channel_master_type_witness:
  "MDFVersionNumber (objs fresh 0) < 400
   \<and> getChannelMasterType (add_T 0 fresh) 0 ''T'' = Val (PInt 1)
   \<and> \<not> MDFVersionNumber (objs (mk_heap [] 410 (\<lambda>_. []) [] 3) 0) < 400
   \<and> getChannelMasterType
        (snd (add_channel 0 0 ''T'' (Arr []) (Some ''Time'') (Val (PInt 2)) (Val (PStr ''s''))
           (Val (PStr ''d'')) None (mk_heap [] 410 (\<lambda>_. []) [] 3))) 0 ''T'' = Val (PInt 2)"
proof -
  have k1: "channel_key fresh 0 0 ''T'' = ''T''"
    by (simp add: channel_key_def contains_def fresh_eq mk_heap_def store_obj_def)
  have k2: "channel_key (mk_heap [] 410 (\<lambda>_. []) [] 3) 0 0 ''T'' = ''T''"
    by (simp add: channel_key_def contains_def mk_heap_def store_obj_def)
  have v1: "MDFVersionNumber (objs fresh 0) = 300"
    by (simp add: fresh_eq mk_heap_def store_obj_def)
  have v2: "MDFVersionNumber (objs (mk_heap [] 410 (\<lambda>_. []) [] 3) 0) = 410"
    by (simp add: mk_heap_def store_obj_def)
  show ?thesis
    using add_channel_master_type[of 0 0 "''T''" "Arr [PInt 1, PInt 2]" "Some ''Time''"
        "Val (PInt 2)" "Val (PStr ''s'')" "Val (PStr ''d'')" None fresh]
      add_channel_master_type[of 0 0 "''T''" "Arr []" "Some ''Time''" "Val (PInt 2)"
        "Val (PStr ''s'')" "Val (PStr ''d'')" None "mk_heap [] 410 (\<lambda>_. []) [] 3"]
    by (simp add: k1 k2 v1 v2 add_T_def)
qed

section \<open>The identity conversion is not stored\<close>

text \<open>
  Claim C4. In a store whose version number is below 400, \<open>add_channel\<close> with a
  conversion of type \<open>0\<close> whose parameters have \<open>P2 == 1.0\<close> and \<open>P1\<close> equal to
  \<open>0.0\<close> or \<open>-0.0\<close> returns normally and leaves the new channel without a
  \<open>conversion\<close> field, so \<open>getChannelConversion\<close> returns the empty string and not
  a conversion dictionary.
\<close>

theorem identity_conversion_not_stored:
  assumes "MDFVersionNumber (objs h self) < 400"
      and "map_of conv ''cc_type'' = Some t" and "py_eq_const t (PInt 0)"
      and "map_of conv ''conversion'' = Some (PDict ps)"
      and "map_of ps ''P2'' = Some p2" and "py_eq_const p2 (PFloat (FFin 1))"
      and "map_of ps ''P1'' = Some p1"
      and "py_eq_const p1 (PFloat (FFin 0)) \<or> py_eq_const p1 (PFloat FNegZero)"
  shows "fst (add_channel self g name data master mt unit desc (Some conv) h) = Inr ()
       \<and> getChannel (snd (add_channel self g name data master mt unit desc (Some conv) h)) self
            (channel_key h self g name) = Some (next_addr h)
       \<and> map_of (channels (snd (add_channel self g name data master mt unit desc (Some conv) h))
            (next_addr h)) conversionField = None
       \<and> getChannelConversion (snd (add_channel self g name data master mt unit desc (Some conv) h))
            self (channel_key h self g name) = Val (PStr [])"
proof -
  define h7 where "h7 = registered self (channel_key h self g name) data master mt unit desc h"
  define h' where "h' = h7\<lparr>channels := (channels h7)(next_addr h :=
                           AList.delete ''conversion'' (channels h7 (next_addr h)))\<rparr>"
  have eq: "add_channel self g name data master mt unit desc (Some conv) h = (Inr (), h')"
    using assms(4-8)
    by (simp add: add_channel_legacy_linear[OF assms(1-3)] Let_def dict_get_def h7_def h'_def)
  have l: "map_of (self_dict (objs h' self)) (channel_key h self g name) = Some (next_addr h)"
    by (simp add: h'_def h7_def registered_lookup)
  have c: "map_of (channels h' (next_addr h)) ''conversion'' = None"
    by (simp add: h'_def delete_conv')
  show ?thesis
    using l c
    by (simp add: eq getChannelConversion_def getChannelField_def getChannel_def contains_def
        conversionField_def)
qed

theorem identity_conversion_not_stored_witness:
  "MDFVersionNumber (objs fresh 0) < 400
   \<and> map_of (identity_conv FNegZero) ''cc_type'' = Some (PInt 0) \<and> py_eq_const (PInt 0) (PInt 0)
   \<and> map_of (identity_conv FNegZero) ''conversion''
        = Some (PDict [(''P1'', PFloat FNegZero), (''P2'', PFloat (FFin 1))])
   \<and> py_eq_const (PFloat (FFin 1)) (PFloat (FFin 1))
   \<and> py_eq_const (PFloat FNegZero) (PFloat (FFin 0))
   \<and> fst (add_channel 0 0 ''T'' (Arr [PInt 1, PInt 2]) (Some ''Time'') (Val (PInt 1))
        (Val (PStr ''s'')) (Val (PStr ''d'')) (Some (identity_conv FNegZero)) fresh) = Inr ()
   \<and> getChannelConversion
        (snd (add_channel 0 0 ''T'' (Arr [PInt 1, PInt 2]) (Some ''Time'') (Val (PInt 1))
           (Val (PStr ''s'')) (Val (PStr ''d'')) (Some (identity_conv FNegZero)) fresh)) 0 ''T''
        = Val (PStr [])
   \<and> getChannelConversion
        (snd (add_channel 0 0 ''T'' (Arr [PInt 1, PInt 2]) (Some ''Time'') (Val (PInt 1))
           (Val (PStr ''s'')) (Val (PStr ''d'')) (Some (identity_conv (FFin 0))) fresh)) 0 ''T''
        = Val (PStr [])"
proof -
  have v: "MDFVersionNumber (objs fresh 0) < 400"
    by (simp add: fresh_eq mk_heap_def store_obj_def)
  have k: "channel_key fresh 0 0 ''T'' = ''T''"
    by (simp add: channel_key_def contains_def fresh_eq mk_heap_def store_obj_def)
  have e: "py_eq_const (PInt 0) (PInt 0)" "py_eq_const (PFloat (FFin 1)) (PFloat (FFin 1))"
    "py_eq_const (PFloat FNegZero) (PFloat (FFin 0))" "py_eq_const (PFloat (FFin 0)) (PFloat (FFin 0))"
    by (simp_all add: py_eq_const_def)
  have a: "map_of (identity_conv z) ''cc_type'' = Some (PInt 0)"
    "map_of (identity_conv z) ''conversion'' = Some (PDict [(''P1'', PFloat z), (''P2'', PFloat (FFin 1))])"
    for z by (simp_all add: identity_conv_def)
  have p: "map_of [(''P1'', PFloat z), (''P2'', PFloat (FFin 1))] ''P2'' = Some (PFloat (FFin 1))"
    "map_of [(''P1'', PFloat z), (''P2'', PFloat (FFin 1))] ''P1'' = Some (PFloat z)" for z
    by simp_all
  have d1: "py_eq_const (PFloat FNegZero) (PFloat (FFin 0)) \<or> py_eq_const (PFloat FNegZero) (PFloat FNegZero)"
    using e by simp
  have d2: "py_eq_const (PFloat (FFin 0)) (PFloat (FFin 0)) \<or> py_eq_const (PFloat (FFin 0)) (PFloat FNegZero)"
    using e by simp
  show ?thesis
    using identity_conversion_not_stored[OF v a(1) e(1) a(2) p(1) e(2) p(2) d1,
        of 0 "''T''" "Arr [PInt 1, PInt 2]" "Some ''Time''" "Val (PInt 1)" "Val (PStr ''s'')"
          "Val (PStr ''d'')"]
      identity_conversion_not_stored[OF v a(1) e(1) a(2) p(1) e(2) p(2) d2,
        of 0 "''T''" "Arr [PInt 1, PInt 2]" "Some ''Time''" "Val (PInt 1)" "Val (PStr ''s'')"
          "Val (PStr ''d'')"]
    by (simp add: v k e a)
qed

section \<open>Absent channels: setters raise, getters return None\<close>

text \<open>
  Claim C5. For a name that is not a key of the store, each of the seven field-scoped
  setters raises \<open>KeyError('Channel not in dictionary')\<close> and leaves the heap as it
  was, and each field-scoped getter returns \<open>None\<close>, which is not the empty string.
  For a channel that exists and has no unit (no description), the getter returns the
  empty string.
\<close>

theorem absent_channel_setters_raise_getters_none:
  assumes "\<not> contains h self name"
  shows "setChannelUnit self name v h = (Inl (KeyError (Val (PStr ''Channel not in dictionary''))), h)
       \<and> setChannelData self name v h = (Inl (KeyError (Val (PStr ''Channel not in dictionary''))), h)
       \<and> setChannelDesc self name v h = (Inl (KeyError (Val (PStr ''Channel not in dictionary''))), h)
       \<and> setChannelMaster self name v h = (Inl (KeyError (Val (PStr ''Channel not in dictionary''))), h)
       \<and> setChannelMasterType self name v h = (Inl (KeyError (Val (PStr ''Channel not in dictionary''))), h)
       \<and> setChannelConversion self name v h = (Inl (KeyError (Val (PStr ''Channel not in dictionary''))), h)
       \<and> setChannelAttachment self name v h = (Inl (KeyError (Val (PStr ''Channel not in dictionary''))), h)
       \<and> getChannelUnit h self name = Val PNone
       \<and> getChannelDesc h self name = Val PNone
       \<and> getChannelMaster h self name = Val PNone
       \<and> getChannelMasterType h self name = Val PNone
       \<and> getChannelConversion h self name = Val PNone
       \<and> Val PNone \<noteq> Val (PStr [])
       \<and> (\<forall>name' r. getChannel h self name' = Some r \<longrightarrow>
             (map_of (channels h r) unitField = None \<longrightarrow> getChannelUnit h self name' = Val (PStr []))
           \<and> (map_of (channels h r) descriptionField = None \<longrightarrow>
                getChannelDesc h self name' = Val (PStr [])))"
proof -
  have s: "setChannel self name v f h = (Inl (KeyError (Val (PStr ''Channel not in dictionary''))), h)" for f
    using assms by (rule setChannel_absent)
  have g: "getChannelField h self name f = Val PNone" for f
    using assms by (simp add: getChannelField_def)
  have e: "getChannelField h self name' f = Val (PStr [])"
    if "getChannel h self name' = Some r" and "map_of (channels h r) f = None" for name' r f
    using that by (simp add: getChannelField_def getChannel_def split: if_splits)
  show ?thesis
    using e by (simp add: setter_defs getter_defs s g)
qed

theorem absent_channel_setters_raise_getters_none_witness:
  "\<not> contains no_text_fields 0 ''X''
   \<and> getChannel no_text_fields 0 ''T'' = Some 3
   \<and> map_of (channels no_text_fields 3) unitField = None
   \<and> map_of (channels no_text_fields 3) descriptionField = None
   \<and> setChannelUnit 0 ''X'' (Val (PStr ''V'')) no_text_fields
       = (Inl (KeyError (Val (PStr ''Channel not in dictionary''))), no_text_fields)
   \<and> getChannelUnit no_text_fields 0 ''X'' = Val PNone
   \<and> getChannelUnit no_text_fields 0 ''T'' = Val (PStr [])
   \<and> getChannelDesc no_text_fields 0 ''T'' = Val (PStr [])"
proof -
  have a: "\<not> contains no_text_fields 0 ''X''"
    by (simp add: no_text_fields_eq mk_heap_def store_obj_def contains_def)
  have b: "getChannel no_text_fields 0 ''T'' = Some 3"
    by (simp add: no_text_fields_eq mk_heap_def store_obj_def contains_def getChannel_def)
  have c: "map_of (channels no_text_fields 3) unitField = None"
    "map_of (channels no_text_fields 3) descriptionField = None"
    by (simp_all add: no_text_fields_eq mk_heap_def field_defs)
  show ?thesis
    using absent_channel_setters_raise_getters_none[OF a, of "Val (PStr ''V'')"] a b c by simp
qed

section \<open>Removing a channel\<close>

text \<open>
  Claim C6, as amended. Let a store contain the channel \<open>name\<close>, let the value of its
  \<open>master\<close> field be a key of the master channel list whose list holds \<open>name\<close>
  exactly once, and let no other list hold it (the keys of the master channel list being
  distinct, as the keys of a dictionary are). Then \<open>remove_channel(name)\<close> returns
  that channel's dictionary, unchanged; afterwards \<open>getChannel(name)\<close> is \<open>None\<close> and
  no list of the master channel list holds \<open>name\<close>.
\<close>

theorem remove_channel_round_trip:
  assumes "getChannel h self name = Some r"
      and "index_get (masterlists h (masterChannelList (objs h self))) (getChannelMaster h self name)
             = Inr (k, l)"
      and "count_list l name = 1"
      and "\<forall>(k', l') \<in> set (masterlists h (masterChannelList (objs h self))). k' \<noteq> k \<longrightarrow> name \<notin> set l'"
      and "distinct (map fst (masterlists h (masterChannelList (objs h self))))"
  shows "fst (remove_channel self name h) = Inr r
       \<and> channels (snd (remove_channel self name h)) r = channels h r
       \<and> getChannel (snd (remove_channel self name h)) self name = None
       \<and> (\<forall>(k', l') \<in> set (masterlists (snd (remove_channel self name h))
              (masterChannelList (objs (snd (remove_channel self name h)) self))). name \<notin> set l')"
proof -
  define a where "a = masterChannelList (objs h self)"
  define ml where "ml = masterlists h a"
  define h1 where "h1 = h\<lparr>masterlists := (masterlists h)(a := AList.update k (remove1 name l) ml)\<rparr>"
  define h' where "h' = h1\<lparr>objs := (objs h1)(self :=
      (objs h1 self)\<lparr>self_dict := AList.delete name (self_dict (objs h1 self))\<rparr>)\<rparr>"
  have lk: "map_of (self_dict (objs h self)) name = Some r"
    using assms(1) by (simp add: getChannel_def split: if_splits)
  have mem: "name \<in> set l" using assms(3) by (rule count_list_one_mem)
  have pop: "self_pop self name h1 = (Inr r, h')"
    using lk by (simp add: self_pop_def Let_def h1_def h'_def)
  have run: "remove_channel self name h = (Inr r, h')"
    using assms(2) mem pop
    by (simp add: remove_channel_def Let_def a_def[symmetric] ml_def[symmetric] h1_def[symmetric])
  have gone: "getChannel h' self name = None"
    by (simp add: h'_def getChannel_def contains_def delete_conv')
  have idx: "masterlists h' (masterChannelList (objs h' self)) = AList.update k (remove1 name l) ml"
    by (simp add: h'_def h1_def a_def)
  have "name \<notin> set l'" if "(k', l') \<in> set (AList.update k (remove1 name l) ml)" for k' l'
  proof -
    from that set_update_distinct[of ml k "remove1 name l"] assms(5)
    have "(k', l') = (k, remove1 name l) \<or> ((k', l') \<in> set ml \<and> k' \<noteq> k)"
      by (auto simp add: ml_def a_def)
    then show ?thesis
    proof
      assume "(k', l') = (k, remove1 name l)"
      then show ?thesis using count_list_remove1[OF assms(3)] by simp
    next
      assume "(k', l') \<in> set ml \<and> k' \<noteq> k"
      then show ?thesis using assms(4) by (auto simp add: ml_def a_def)
    qed
  qed
  then have clean: "\<forall>(k', l') \<in> set (masterlists h' (masterChannelList (objs h' self))). name \<notin> set l'"
    unfolding idx by auto
  have same: "channels h' r = channels h r"
    by (simp add: h'_def h1_def)
  show ?thesis
    using gone clean same by (simp add: run)
qed

lemma retargeted_eq:
  "retargeted = mk_heap [(''T'', 3)] 300
     ((\<lambda>_. [])(3 := [(''data'', Arr [PInt 1, PInt 2]), (''unit'', Val (PStr ''s'')),
        (''description'', Val (PStr ''d'')), (''master'', Val (PStr ''Angle'')),
        (''masterType'', Val (PInt 1))])) [(Some ''Time'', [''T''])] 4"
  by (simp add: retargeted_def add_T_0_fresh setChannelMaster_def setChannel_def contains_def
      mk_heap_def store_obj_def rec_T_def masterField_def)

theorem remove_channel_round_trip_witness:
  "getChannel (add_T 0 fresh) 0 ''T'' = Some 3
   \<and> index_get (masterlists (add_T 0 fresh) (masterChannelList (objs (add_T 0 fresh) 0)))
        (getChannelMaster (add_T 0 fresh) 0 ''T'') = Inr (Some ''Time'', [''T''])
   \<and> count_list [''T''] ''T'' = 1
   \<and> masterlists (add_T 0 fresh) (masterChannelList (objs (add_T 0 fresh) 0))
        = [(Some ''Time'', [''T''])]
   \<and> distinct (map fst (masterlists (add_T 0 fresh) (masterChannelList (objs (add_T 0 fresh) 0))))
   \<and> fst (remove_channel 0 ''T'' (add_T 0 fresh)) = Inr 3
   \<and> getChannel (snd (remove_channel 0 ''T'' (add_T 0 fresh))) 0 ''T'' = None
   \<and> masterlists (snd (remove_channel 0 ''T'' (add_T 0 fresh))) 1 = [(Some ''Time'', [])]"
proof -
  have a: "getChannel (add_T 0 fresh) 0 ''T'' = Some 3"
    by (simp add: add_T_0_fresh mk_heap_def store_obj_def getChannel_def contains_def)
  have m: "masterlists (add_T 0 fresh) (masterChannelList (objs (add_T 0 fresh) 0))
      = [(Some ''Time'', [''T''])]"
    by (simp add: add_T_0_fresh mk_heap_def store_obj_def)
  have gm: "getChannelMaster (add_T 0 fresh) 0 ''T'' = Val (PStr ''Time'')"
    by (simp add: add_T_0_fresh mk_heap_def store_obj_def getChannelMaster_def getChannelField_def
        getChannel_def contains_def masterField_def rec_T_def)
  have b: "index_get (masterlists (add_T 0 fresh) (masterChannelList (objs (add_T 0 fresh) 0)))
        (getChannelMaster (add_T 0 fresh) 0 ''T'') = Inr (Some ''Time'', [''T''])"
    by (simp add: m gm)
  have c: "count_list [''T''] ''T'' = 1" by simp
  have d: "\<forall>(k', l') \<in> set (masterlists (add_T 0 fresh) (masterChannelList (objs (add_T 0 fresh) 0))).
         k' \<noteq> Some ''Time'' \<longrightarrow> ''T'' \<notin> set l'"
    by (simp add: m)
  have e: "distinct (map fst (masterlists (add_T 0 fresh) (masterChannelList (objs (add_T 0 fresh) 0))))"
    by (simp add: m)
  have f: "masterlists (snd (remove_channel 0 ''T'' (add_T 0 fresh))) 1 = [(Some ''Time'', [])]"
    by (simp add: add_T_0_fresh remove_channel_def Let_def getChannelMaster_def getChannelField_def
        getChannel_def contains_def masterField_def rec_T_def mk_heap_def store_obj_def self_pop_def)
  show ?thesis
    using remove_channel_round_trip[OF a b c d e] a b m e f by simp
qed

text \<open>
  Claim C6 as stated, for every store containing the channel, fails: after
  \<open>setChannelMaster('T', 'Angle')\<close> the master field names no entry of the master
  channel list, \<open>remove_channel('T')\<close> raises \<open>KeyError('Angle')\<close>, and the channel and
  its entry in the list of \<open>Time\<close> stay.
\<close>

theorem remove_after_setChannelMaster_counterexample:
  "getChannel retargeted 0 ''T'' = Some 3
   \<and> fst (remove_channel 0 ''T'' retargeted) = Inl (KeyError (Val (PStr ''Angle'')))
   \<and> getChannel (snd (remove_channel 0 ''T'' retargeted)) 0 ''T'' = Some 3
   \<and> masterlists (snd (remove_channel 0 ''T'' retargeted))
        (masterChannelList (objs (snd (remove_channel 0 ''T'' retargeted)) 0))
      = [(Some ''Time'', [''T''])]"
  by (simp add: retargeted_eq remove_channel_def Let_def getChannelMaster_def getChannelField_def
      getChannel_def contains_def masterField_def mk_heap_def store_obj_def)

section \<open>Copy\<close>

text \<open>
  Claim C7 at \<open>copy()\<close> of a store that holds the channel \<open>T\<close> and is in tabular
  mode (\<open>_pandasframe = True\<close>). The copy is a new instance with the source's keys,
  version number, multi-processing flag, name-filtering flag, \<open>convert_tables\<close> flag
  and file name, but its \<open>_pandasframe\<close> flag is \<open>False\<close>: \<open>copy\<close> assigns every
  other attribute the constructor sets and leaves this one at the constructor's value.
\<close>

theorem copy_drops_tabular_flag:
  "pandasframe (objs tabular_store 0) = True
   \<and> fst (copy 0 tabular_store) = Inr 4
   \<and> keys (snd (copy 0 tabular_store)) 4 = keys tabular_store 0
   \<and> MDFVersionNumber (objs (snd (copy 0 tabular_store)) 4) = MDFVersionNumber (objs tabular_store 0)
   \<and> multiProc (objs (snd (copy 0 tabular_store)) 4) = multiProc (objs tabular_store 0)
   \<and> filterChannelNames (objs (snd (copy 0 tabular_store)) 4)
        = filterChannelNames (objs tabular_store 0)
   \<and> convert_tables (objs (snd (copy 0 tabular_store)) 4) = convert_tables (objs tabular_store 0)
   \<and> fileName (objs (snd (copy 0 tabular_store)) 4) = fileName (objs tabular_store 0)
   \<and> pandasframe (objs (snd (copy 0 tabular_store)) 4) = False"
proof -
  have a: "(0::nat) < next_addr tabular_store"
    by (simp add: tabular_store_eq mk_heap_def)
  have b: "distinct (keys tabular_store 0)"
    by (simp add: tabular_store_eq mk_heap_def store_obj_def keys_def)
  have n: "next_addr tabular_store = 4"
    by (simp add: tabular_store_eq mk_heap_def)
  have p: "pandasframe (objs tabular_store 0) = True"
    by (simp add: tabular_store_eq mk_heap_def)
  show ?thesis
    by (simp add: copy_eq[OF a b] n p keys_def)
qed

section \<open>File metadata\<close>

text \<open>
  Claim C8. \<open>add_metadata\<close> never raises; afterwards each of the seven fields of the
  file metadata holds its argument, or the empty string when the argument was omitted;
  and calling it a second time with the same arguments changes nothing.
\<close>

theorem add_metadata_overwrites:
  "fst (add_metadata self author organisation project subject comment date time h) = Inr ()
   \<and> map_of (metadatas (snd (add_metadata self author organisation project subject comment date
          time h)) (file_metadata (objs h self))) ''author''
        = Some (case author of None \<Rightarrow> PStr [] | Some v \<Rightarrow> v)
   \<and> map_of (metadatas (snd (add_metadata self author organisation project subject comment date
          time h)) (file_metadata (objs h self))) ''organisation''
        = Some (case organisation of None \<Rightarrow> PStr [] | Some v \<Rightarrow> v)
   \<and> map_of (metadatas (snd (add_metadata self author organisation project subject comment date
          time h)) (file_metadata (objs h self))) ''project''
        = Some (case project of None \<Rightarrow> PStr [] | Some v \<Rightarrow> v)
   \<and> map_of (metadatas (snd (add_metadata self author organisation project subject comment date
          time h)) (file_metadata (objs h self))) ''subject''
        = Some (case subject of None \<Rightarrow> PStr [] | Some v \<Rightarrow> v)
   \<and> map_of (metadatas (snd (add_metadata self author organisation project subject comment date
          time h)) (file_metadata (objs h self))) ''comment''
        = Some (case comment of None \<Rightarrow> PStr [] | Some v \<Rightarrow> v)
   \<and> map_of (metadatas (snd (add_metadata self author organisation project subject comment date
          time h)) (file_metadata (objs h self))) ''date''
        = Some (case date of None \<Rightarrow> PStr [] | Some v \<Rightarrow> v)
   \<and> map_of (metadatas (snd (add_metadata self author organisation project subject comment date
          time h)) (file_metadata (objs h self))) ''time''
        = Some (case time of None \<Rightarrow> PStr [] | Some v \<Rightarrow> v)
   \<and> snd (add_metadata self author organisation project subject comment date time
          (snd (add_metadata self author organisation project subject comment date time h)))
        = snd (add_metadata self author organisation project subject comment date time h)"
proof -
  define va where "va = dflt author"
  define vo where "vo = dflt organisation"
  define vp where "vp = dflt project"
  define vs where "vs = dflt subject"
  define vc where "vc = dflt comment"
  define vd where "vd = dflt date"
  define vt where "vt = dflt time"
  define U :: "(string \<times> pyval) list \<Rightarrow> (string \<times> pyval) list" where
    "U = (\<lambda>m. AList.update ''time'' vt (AList.update ''date'' vd (AList.update ''comment'' vc
       (AList.update ''subject'' vs (AList.update ''project'' vp
       (AList.update ''organisation'' vo (AList.update ''author'' va m)))))))"
  have run: "add_metadata self author organisation project subject comment date time k =
      (Inr (), k\<lparr>metadatas := (metadatas k)(file_metadata (objs k self) :=
         U (metadatas k (file_metadata (objs k self))))\<rparr>)" for k
    by (simp add: add_metadata_def meta_assign_def Let_def U_def va_def vo_def vp_def vs_def
        vc_def vd_def vt_def)
  have lk: "map_of (U m) ''author'' = Some va" "map_of (U m) ''organisation'' = Some vo"
    "map_of (U m) ''project'' = Some vp" "map_of (U m) ''subject'' = Some vs"
    "map_of (U m) ''comment'' = Some vc" "map_of (U m) ''date'' = Some vd"
    "map_of (U m) ''time'' = Some vt" for m
    by (simp_all add: U_def update_conv')
  have tr: "AList.update ''author'' va (U m) = U m" "AList.update ''organisation'' vo (U m) = U m"
    "AList.update ''project'' vp (U m) = U m" "AList.update ''subject'' vs (U m) = U m"
    "AList.update ''comment'' vc (U m) = U m" "AList.update ''date'' vd (U m) = U m"
    "AList.update ''time'' vt (U m) = U m" for m
    by (rule update_triv, rule lk)+
  have "U (U m) = AList.update ''time'' vt (AList.update ''date'' vd (AList.update ''comment'' vc
       (AList.update ''subject'' vs (AList.update ''project'' vp
       (AList.update ''organisation'' vo (AList.update ''author'' va (U m)))))))" for m
    by (simp only: U_def)
  then have idem: "U (U m) = U m" for m
    by (simp only: tr)
  have d: "dflt x = (case x of None \<Rightarrow> PStr [] | Some v \<Rightarrow> v)" for x
    by (cases x) simp_all
  have two: "snd (add_metadata self author organisation project subject comment date time
          (snd (add_metadata self author organisation project subject comment date time h)))
        = snd (add_metadata self author organisation project subject comment date time h)"
    by (simp add: run idem)
  show ?thesis
    unfolding two unfolding run
    by (simp add: lk va_def vo_def vp_def vs_def vc_def vd_def vt_def d)
qed

section \<open>Removing the conversion of a channel that does not exist\<close>

text \<open>
  Claim C9 at the input \<open>remove_channel_conversion('X')\<close> on a new store:
  \<open>getChannel\<close> returns \<open>None\<close> and \<open>field in None\<close> raises \<open>TypeError\<close>.
\<close>

theorem remove_conversion_of_absent_channel_raises:
  "\<not> contains fresh 0 ''X''
   \<and> remove_channel_conversion 0 ''X'' fresh = (Inl TypeError, fresh)"
  by (simp add: remove_channel_conversion_def remove_channel_field_def getChannel_def contains_def
      fresh_eq mk_heap_def store_obj_def)

section \<open>When a linear conversion makes add_channel raise\<close>

text \<open>
  Claim C10, as amended. In a store whose version number is below 400, \<open>add_channel\<close>
  with a conversion of type \<open>0\<close> reads \<open>P2\<close> from the parameters in every case and
  \<open>P1\<close> only when \<open>P2 == 1.0\<close> (\<open>and\<close> short-circuits). With \<open>ps\<close> the
  parameter dictionary (empty when the conversion has no \<open>conversion\<close> entry), the call
  raises \<open>KeyError('P2')\<close> when \<open>P2\<close> is missing, raises \<open>KeyError('P1')\<close> when
  \<open>P2 == 1.0\<close> and \<open>P1\<close> is missing, and returns normally otherwise.
\<close>

theorem legacy_linear_conversion_result:
  assumes "MDFVersionNumber (objs h self) < 400"
      and "map_of conv ''cc_type'' = Some t" and "py_eq_const t (PInt 0)"
      and "map_of conv ''conversion'' = None \<and> ps = [] \<or> map_of conv ''conversion'' = Some (PDict ps)"
  shows "fst (add_channel self g name data master mt unit desc (Some conv) h) =
    (case map_of ps ''P2'' of
       None \<Rightarrow> Inl (KeyError (Val (PStr ''P2'')))
     | Some p2 \<Rightarrow>
         if py_eq_const p2 (PFloat (FFin 1)) then
           (case map_of ps ''P1'' of
              None \<Rightarrow> Inl (KeyError (Val (PStr ''P1'')))
            | Some p1 \<Rightarrow> Inr ())
         else Inr ())"
proof -
  have P: "(case map_of conv ''conversion'' of None \<Rightarrow> PDict [] | Some c \<Rightarrow> c) = PDict ps"
    using assms(4) by auto
  show ?thesis
    unfolding add_channel_legacy_linear[OF assms(1-3)] Let_def P
    by (simp add: dict_get_def split: option.splits)
qed

theorem legacy_linear_conversion_result_witness:
  "MDFVersionNumber (objs fresh 0) < 400
   \<and> map_of (identity_conv (FFin 0)) ''cc_type'' = Some (PInt 0) \<and> py_eq_const (PInt 0) (PInt 0)
   \<and> map_of (identity_conv (FFin 0)) ''conversion''
        = Some (PDict [(''P1'', PFloat (FFin 0)), (''P2'', PFloat (FFin 1))])
   \<and> fst (add_channel 0 0 ''T'' (Arr [PInt 1, PInt 2]) (Some ''Time'') (Val (PInt 1))
        (Val (PStr ''s'')) (Val (PStr ''d'')) (Some (identity_conv (FFin 0))) fresh) = Inr ()
   \<and> map_of [(''cc_type'', PInt 0)] ''conversion'' = None
   \<and> fst (add_channel 0 0 ''T'' (Arr [PInt 1, PInt 2]) (Some ''Time'') (Val (PInt 1))
        (Val (PStr ''s'')) (Val (PStr ''d'')) (Some [(''cc_type'', PInt 0)]) fresh)
        = Inl (KeyError (Val (PStr ''P2'')))
   \<and> fst (add_channel 0 0 ''T'' (Arr [PInt 1, PInt 2]) (Some ''Time'') (Val (PInt 1))
        (Val (PStr ''s'')) (Val (PStr ''d''))
        (Some [(''cc_type'', PInt 0), (''conversion'', PDict [(''P2'', PFloat (FFin 1))])]) fresh)
        = Inl (KeyError (Val (PStr ''P1'')))"
proof -
  have v: "MDFVersionNumber (objs fresh 0) < 400"
    by (simp add: fresh_eq mk_heap_def store_obj_def)
  have e: "py_eq_const (PInt 0) (PInt 0)" "py_eq_const (PFloat (FFin 1)) (PFloat (FFin 1))"
    by (simp_all add: py_eq_const_def)
  have a: "map_of (identity_conv (FFin 0)) ''cc_type'' = Some (PInt 0)"
    "map_of (identity_conv (FFin 0)) ''conversion''
       = Some (PDict [(''P1'', PFloat (FFin 0)), (''P2'', PFloat (FFin 1))])"
    by (simp_all add: identity_conv_def)
  have a1: "map_of (identity_conv (FFin 0)) ''conversion'' = None \<and>
      [(''P1'', PFloat (FFin 0)), (''P2'', PFloat (FFin 1))] = [] \<or>
      map_of (identity_conv (FFin 0)) ''conversion''
       = Some (PDict [(''P1'', PFloat (FFin 0)), (''P2'', PFloat (FFin 1))])"
    using a(2) by simp
  have b: "map_of [(''cc_type'', PInt 0)] ''cc_type'' = Some (PInt 0)" by simp
  have b1: "map_of [(''cc_type'', PInt 0)] ''conversion'' = None \<and> ([]::(string \<times> pyval) list) = [] \<or>
      map_of [(''cc_type'', PInt 0)] ''conversion'' = Some (PDict [])"
    by simp
  have c: "map_of [(''cc_type'', PInt 0), (''conversion'', PDict [(''P2'', PFloat (FFin 1))])] ''cc_type''
      = Some (PInt 0)" by simp
  have c1: "map_of [(''cc_type'', PInt 0), (''conversion'', PDict [(''P2'', PFloat (FFin 1))])] ''conversion'' = None
      \<and> [(''P2'', PFloat (FFin 1))] = [] \<or>
      map_of [(''cc_type'', PInt 0), (''conversion'', PDict [(''P2'', PFloat (FFin 1))])] ''conversion''
        = Some (PDict [(''P2'', PFloat (FFin 1))])"
    by simp
  show ?thesis
    using legacy_linear_conversion_result[OF v a(1) e(1) a1,
        of 0 "''T''" "Arr [PInt 1, PInt 2]" "Some ''Time''" "Val (PInt 1)" "Val (PStr ''s'')"
          "Val (PStr ''d'')"]
      legacy_linear_conversion_result[OF v b e(1) b1,
        of 0 "''T''" "Arr [PInt 1, PInt 2]" "Some ''Time''" "Val (PInt 1)" "Val (PStr ''s'')"
          "Val (PStr ''d'')"]
      legacy_linear_conversion_result[OF v c e(1) c1,
        of 0 "''T''" "Arr [PInt 1, PInt 2]" "Some ''Time''" "Val (PInt 1)" "Val (PStr ''s'')"
          "Val (PStr ''d'')"]
    by (simp add: v e a)
qed

text \<open>
  Claim C10 as stated fails: a linear conversion of slope \<open>2.0\<close> without \<open>P1\<close> is
  accepted, since \<open>P1\<close> is never read.
\<close>

theorem total_without_P1_counterexample:
  "MDFVersionNumber (objs fresh 0) < 400
   \<and> map_of slope2_conv ''cc_type'' = Some (PInt 0)
   \<and> map_of slope2_conv ''conversion'' = Some (PDict [(''P2'', PFloat (FFin 2))])
   \<and> map_of [(''P2'', PFloat (FFin 2))] ''P1'' = None
   \<and> fst (add_channel 0 0 ''T'' (Arr [PInt 1, PInt 2]) (Some ''Time'') (Val (PInt 1))
        (Val (PStr ''s'')) (Val (PStr ''d'')) (Some slope2_conv) fresh) = Inr ()"
proof -
  have v: "MDFVersionNumber (objs fresh 0) < 400"
    by (simp add: fresh_eq mk_heap_def store_obj_def)
  have a: "map_of slope2_conv ''cc_type'' = Some (PInt 0)"
    "map_of slope2_conv ''conversion'' = Some (PDict [(''P2'', PFloat (FFin 2))])"
    by (simp_all add: slope2_conv_def)
  have e: "py_eq_const (PInt 0) (PInt 0)" "\<not> py_eq_const (PFloat (FFin 2)) (PFloat (FFin 1))"
    by (simp_all add: py_eq_const_def)
  show ?thesis
    by (simp add: v a e add_channel_legacy_linear[OF v a(1) e(1)] Let_def dict_get_def)
qed

end
